theory Spec2Isabelle
  imports Main "HOL-Library.Word"
begin

section \<open>Values shared by the whole runtime wrapper\<close>

text \<open>
  The C++ wrapper (\<^verbatim>\<open>IOP.cpp\<close>, \<^verbatim>\<open>SimpleRunner.cpp\<close>, \<^verbatim>\<open>Misc.hpp\<close>) sits on top of the
  native \<^verbatim>\<open>groqio.h\<close> library, which is not part of the repository. Native handles and
  raw \<^verbatim>\<open>uint8_t *\<close> pointers are opaque addresses; \<^verbatim>\<open>nullptr\<close> is address 0. Values of
  \<^verbatim>\<open>size_t\<close> are only compared and counted up to a bound that is itself a \<^verbatim>\<open>size_t\<close>, never
  added or multiplied by the wrapper, so they are natural numbers here; the same holds for the
  \<^verbatim>\<open>unsigned int\<close> program count. Stored scalars keep their width.
\<close>

type_synonym byte = "8 word"

type_synonym ptr = nat
type_synonym handle = nat

definition nullptr :: ptr where
  "nullptr = 0"

text \<open>
  \<^verbatim>\<open>Status\<close> comes from \<^verbatim>\<open>groqio.h\<close>; the wrapper only ever compares it with
  \<^verbatim>\<open>GROQ_SUCCESS\<close> and prints the numeric code of the other values.
\<close>

datatype Status = GROQ_SUCCESS | GROQ_FAILURE int

text \<open>
  What can end a call early: \<^verbatim>\<open>std::runtime_error\<close> with its message, the
  \<^verbatim>\<open>std::out_of_range\<close> of \<^verbatim>\<open>std::vector::at\<close>, and the process abort of a failed
  \<^verbatim>\<open>assert\<close>.
\<close>

datatype error = runtime_error string | out_of_range | assertion_abort

subsection \<open>\<^verbatim>\<open>std::to_string\<close>\<close>

definition digit_char :: "nat \<Rightarrow> char" where
  "digit_char d = ''0123456789'' ! d"

function to_string :: "nat \<Rightarrow> string" where
  "to_string n = (if n < 10 then [digit_char n] else to_string (n div 10) @ [digit_char (n mod 10)])"
  by pat_completeness auto
termination
  by (relation "measure (\<lambda>n. n)") auto

declare to_string.simps [simp del]

definition to_string_int :: "int \<Rightarrow> string" where
  "to_string_int i = (if i < 0 then ''-'' @ to_string (nat (- i)) else to_string (nat i))"

subsection \<open>The \<^verbatim>\<open>GROQOK\<close> macro and \<^verbatim>\<open>std::vector::at\<close>\<close>

text \<open>
  \<^verbatim>\<open>GROQOK(x)\<close> evaluates the native call \<^verbatim>\<open>x\<close> and throws
  \<^verbatim>\<open>"Error " + std::to_string(status) + ": " + STRINGIFY(x)\<close> unless the status is
  \<^verbatim>\<open>GROQ_SUCCESS\<close>. The first argument is the stringified call.
\<close>

definition GROQOK_error :: "string \<Rightarrow> int \<Rightarrow> error" where
  "GROQOK_error x c = runtime_error (''Error '' @ to_string_int c @ '': '' @ x)"

definition GROQOK :: "string \<Rightarrow> Status \<times> 'a \<Rightarrow> error + 'a" where
  "GROQOK x r = (case fst r of GROQ_SUCCESS \<Rightarrow> Inr (snd r) | GROQ_FAILURE c \<Rightarrow> Inl (GROQOK_error x c))"

definition at :: "'a list \<Rightarrow> nat \<Rightarrow> error + 'a" where
  "at xs i = (if i < length xs then Inr (xs ! i) else Inl out_of_range)"

definition at_assign :: "'a list \<Rightarrow> nat \<Rightarrow> 'a \<Rightarrow> error + 'a list" where
  "at_assign xs i v = (if i < length xs then Inr (xs[i := v]) else Inl out_of_range)"

definition ebind :: "error + 'a \<Rightarrow> ('a \<Rightarrow> error + 'b) \<Rightarrow> error + 'b" where
  "ebind m f = (case m of Inl e \<Rightarrow> Inl e | Inr a \<Rightarrow> f a)"

section \<open>The parsed object model (\<^verbatim>\<open>IOP.hpp\<close>)\<close>

text \<open>
  Members whose name is shared across classes or reserved in Isabelle (\<^verbatim>\<open>name\<close>,
  \<^verbatim>\<open>size\<close>, \<^verbatim>\<open>iop\<close>, \<^verbatim>\<open>input\<close>, \<^verbatim>\<open>output\<close>) carry the class as a suffix.
\<close>

record TensorLayout =
  layout :: handle
  name_TL :: string
  iodSize :: nat
  size_TL :: nat
  format :: "32 word"
  dimensions :: "32 word list"

definition getHostSize :: "TensorLayout \<Rightarrow> nat" where
  "getHostSize L = size_TL L"

definition getIoSize :: "TensorLayout \<Rightarrow> nat" where
  "getIoSize L = iodSize L"

record IODescriptor =
  layouts :: "TensorLayout list"
  size_IOD :: nat

definition getTensorLayouts :: "IODescriptor \<Rightarrow> TensorLayout list" where
  "getTensorLayouts d = layouts d"

definition getSize :: "IODescriptor \<Rightarrow> nat" where
  "getSize d = size_IOD d"

record EntryPoint =
  name_EP :: string
  input_EP :: IODescriptor
  output_EP :: IODescriptor

definition getInputIODescriptor :: "EntryPoint \<Rightarrow> IODescriptor" where
  "getInputIODescriptor ep = input_EP ep"

definition getOutputIODescriptor :: "EntryPoint \<Rightarrow> IODescriptor" where
  "getOutputIODescriptor ep = output_EP ep"

record Program =
  entrypoints :: "EntryPoint list"
  name_P :: string

definition getEntrypoints :: "Program \<Rightarrow> EntryPoint list" where
  "getEntrypoints p = entrypoints p"

definition numEntrypoints :: "Program \<Rightarrow> nat" where
  "numEntrypoints p = length (entrypoints p)"

record IOP =
  iop_IOP :: handle
  data :: "byte list"
  programs :: "Program list"

definition handle_IOP :: "IOP \<Rightarrow> handle" where
  "handle_IOP c = iop_IOP c"

definition getPrograms :: "IOP \<Rightarrow> Program list" where
  "getPrograms c = programs c"

definition numPrograms :: "IOP \<Rightarrow> nat" where
  "numPrograms c = length (programs c)"

section \<open>Native calls that read the container\<close>

text \<open>
  The parse-time calls of \<^verbatim>\<open>groqio.h\<close> read a container that nothing modifies after
  \<^verbatim>\<open>groq_iop_init\<close>, so each is a function from its arguments to its status and its
  out-parameter. The two program sizes are returned directly, with no status.
\<close>

record parse_api =
  groq_iop_init :: "byte list \<Rightarrow> Status \<times> handle"
  groq_iop_get_number_of_programs :: "handle \<Rightarrow> Status \<times> nat"
  groq_get_nth_program :: "handle \<Rightarrow> nat \<Rightarrow> Status \<times> handle"
  groq_program_name :: "handle \<Rightarrow> nat \<Rightarrow> Status \<times> string"
  groq_get_number_of_entrypoints :: "handle \<Rightarrow> Status \<times> nat"
  groq_get_nth_entrypoint :: "handle \<Rightarrow> nat \<Rightarrow> Status \<times> handle"
  groq_entrypoint_get_name :: "handle \<Rightarrow> Status \<times> string"
  groq_entrypoint_get_input_iodescriptor :: "handle \<Rightarrow> Status \<times> handle"
  groq_entrypoint_get_output_iodescriptor :: "handle \<Rightarrow> Status \<times> handle"
  groq_entrypoint_get_input_size :: "handle \<Rightarrow> Status \<times> nat"
  groq_entrypoint_get_output_size :: "handle \<Rightarrow> Status \<times> nat"
  groq_iodescriptor_get_number_of_tensor_layouts :: "handle \<Rightarrow> Status \<times> nat"
  groq_iodescriptor_get_nth_tensor_layout :: "handle \<Rightarrow> nat \<Rightarrow> Status \<times> handle"
  groq_tensor_layout_get_name :: "handle \<Rightarrow> Status \<times> string"
  groq_tensor_layout_get_number_of_dimensions :: "handle \<Rightarrow> Status \<times> nat"
  groq_tensor_layout_get_size :: "handle \<Rightarrow> Status \<times> nat"
  groq_tensor_layout_get_format :: "handle \<Rightarrow> Status \<times> 32 word"
  groq_tensor_layout_get_nth_dimension :: "handle \<Rightarrow> nat \<Rightarrow> Status \<times> 32 word"
  groq_program_get_input_size :: "handle \<Rightarrow> nat \<Rightarrow> nat"
  groq_program_get_output_size :: "handle \<Rightarrow> nat \<Rightarrow> nat"

section \<open>The constructors of \<^verbatim>\<open>IOP.cpp\<close>\<close>

function dimensions_loop :: "parse_api \<Rightarrow> handle \<Rightarrow> nat \<Rightarrow> nat \<Rightarrow> 32 word list \<Rightarrow> error + 32 word list" where
  "dimensions_loop api l nDims n_th dims =
     (if n_th < nDims then
        ebind (GROQOK ''groq_tensor_layout_get_nth_dimension(layout, nth, &dimension)''
                 (groq_tensor_layout_get_nth_dimension api l n_th))
          (\<lambda>dimension. dimensions_loop api l nDims (Suc n_th) (dims @ [dimension]))
      else Inr dims)"
  by pat_completeness auto
termination
  by (relation "measure (\<lambda>(api, l, nDims, n_th, dims). nDims - n_th)") auto

declare dimensions_loop.simps [simp del]

definition TensorLayout_new :: "parse_api \<Rightarrow> handle \<Rightarrow> string \<Rightarrow> nat \<Rightarrow> error + TensorLayout" where
  "TensorLayout_new api l nm iodSz =
     ebind (GROQOK ''groq_tensor_layout_get_number_of_dimensions(layout, &nDims)''
              (groq_tensor_layout_get_number_of_dimensions api l)) (\<lambda>nDims.
     ebind (GROQOK ''groq_tensor_layout_get_size(layout, &size)''
              (groq_tensor_layout_get_size api l)) (\<lambda>sz.
     ebind (GROQOK ''groq_tensor_layout_get_format(layout, &format)''
              (groq_tensor_layout_get_format api l)) (\<lambda>fmt.
     ebind (dimensions_loop api l nDims 0 []) (\<lambda>dims.
     Inr \<lparr>layout = l, name_TL = nm, iodSize = iodSz, size_TL = sz, format = fmt, dimensions = dims\<rparr>))))"

function layouts_loop :: "parse_api \<Rightarrow> handle \<Rightarrow> nat \<Rightarrow> nat \<Rightarrow> nat \<Rightarrow> TensorLayout list \<Rightarrow> error + TensorLayout list" where
  "layouts_loop api iodescriptor sz n n_th ls =
     (if n_th < n then
        ebind (GROQOK ''groq_iodescriptor_get_nth_tensor_layout(iodescriptor, nth, &layout)''
                 (groq_iodescriptor_get_nth_tensor_layout api iodescriptor n_th)) (\<lambda>l.
        ebind (GROQOK ''groq_tensor_layout_get_name(layout, &name)''
                 (groq_tensor_layout_get_name api l)) (\<lambda>nm.
        ebind (TensorLayout_new api l nm sz) (\<lambda>L.
        layouts_loop api iodescriptor sz n (Suc n_th) (ls @ [L]))))
      else Inr ls)"
  by pat_completeness auto
termination
  by (relation "measure (\<lambda>(api, iodescriptor, sz, n, n_th, ls). n - n_th)") auto

declare layouts_loop.simps [simp del]

definition IODescriptor_new :: "parse_api \<Rightarrow> handle \<Rightarrow> nat \<Rightarrow> error + IODescriptor" where
  "IODescriptor_new api iodescriptor sz =
     ebind (GROQOK ''groq_iodescriptor_get_number_of_tensor_layouts(iodescriptor, &n)''
              (groq_iodescriptor_get_number_of_tensor_layouts api iodescriptor)) (\<lambda>n.
     ebind (layouts_loop api iodescriptor sz n 0 []) (\<lambda>ls.
     Inr \<lparr>layouts = ls, size_IOD = sz\<rparr>))"

definition EntryPoint_new :: "parse_api \<Rightarrow> handle \<Rightarrow> string \<Rightarrow> error + EntryPoint" where
  "EntryPoint_new api entrypoint nm =
     ebind (GROQOK ''groq_entrypoint_get_input_iodescriptor(entrypoint, &inputIod)''
              (groq_entrypoint_get_input_iodescriptor api entrypoint)) (\<lambda>inputIod.
     ebind (GROQOK ''groq_entrypoint_get_output_iodescriptor(entrypoint, &outputIod)''
              (groq_entrypoint_get_output_iodescriptor api entrypoint)) (\<lambda>outputIod.
     ebind (GROQOK ''groq_entrypoint_get_input_size(entrypoint, &inputSize)''
              (groq_entrypoint_get_input_size api entrypoint)) (\<lambda>inputSize.
     ebind (GROQOK ''groq_entrypoint_get_output_size(entrypoint, &outputSize)''
              (groq_entrypoint_get_output_size api entrypoint)) (\<lambda>outputSize.
     ebind (IODescriptor_new api inputIod inputSize) (\<lambda>inp.
     ebind (IODescriptor_new api outputIod outputSize) (\<lambda>outp.
     Inr \<lparr>name_EP = nm, input_EP = inp, output_EP = outp\<rparr>))))))"

function entrypoints_loop :: "parse_api \<Rightarrow> handle \<Rightarrow> nat \<Rightarrow> nat \<Rightarrow> EntryPoint list \<Rightarrow> error + EntryPoint list" where
  "entrypoints_loop api program n n_th eps =
     (if n_th < n then
        ebind (GROQOK ''groq_get_nth_entrypoint(program, nth, &entrypoint)''
                 (groq_get_nth_entrypoint api program n_th)) (\<lambda>entrypoint.
        ebind (GROQOK ''groq_entrypoint_get_name(entrypoint, &name)''
                 (groq_entrypoint_get_name api entrypoint)) (\<lambda>nm.
        ebind (EntryPoint_new api entrypoint nm) (\<lambda>ep.
        entrypoints_loop api program n (Suc n_th) (eps @ [ep]))))
      else Inr eps)"
  by pat_completeness auto
termination
  by (relation "measure (\<lambda>(api, program, n, n_th, eps). n - n_th)") auto

declare entrypoints_loop.simps [simp del]

definition Program_new :: "parse_api \<Rightarrow> handle \<Rightarrow> string \<Rightarrow> error + Program" where
  "Program_new api program nm =
     ebind (GROQOK ''groq_get_number_of_entrypoints(program, &n)''
              (groq_get_number_of_entrypoints api program)) (\<lambda>n.
     ebind (entrypoints_loop api program n 0 []) (\<lambda>eps.
     Inr \<lparr>entrypoints = eps, name_P = nm\<rparr>))"

function programs_loop :: "parse_api \<Rightarrow> handle \<Rightarrow> nat \<Rightarrow> nat \<Rightarrow> Program list \<Rightarrow> error + Program list" where
  "programs_loop api h n n_th ps =
     (if n_th < n then
        ebind (GROQOK ''groq_get_nth_program(iop, nth, &program)''
                 (groq_get_nth_program api h n_th)) (\<lambda>program.
        ebind (GROQOK ''groq_program_name(iop, nth, &name)''
                 (groq_program_name api h n_th)) (\<lambda>nm.
        ebind (Program_new api program nm) (\<lambda>p.
        programs_loop api h n (Suc n_th) (ps @ [p]))))
      else Inr ps)"
  by pat_completeness auto
termination
  by (relation "measure (\<lambda>(api, h, n, n_th, ps). n - n_th)") auto

declare programs_loop.simps [simp del]

text \<open>
  \<^verbatim>\<open>IOP::initialize\<close>, run by both constructors on the copied bytes. An exception
  leaves the constructor, so the caller holds an \<^verbatim>\<open>IOP\<close> only in the \<open>Inr\<close> case.
\<close>

definition initialize :: "parse_api \<Rightarrow> byte list \<Rightarrow> error + IOP" where
  "initialize api bytes =
     ebind (GROQOK ''groq_iop_init(&data[0], data.size(), &iop)'' (groq_iop_init api bytes)) (\<lambda>h.
     ebind (GROQOK ''groq_iop_get_number_of_programs(iop, &n)''
              (groq_iop_get_number_of_programs api h)) (\<lambda>n.
     ebind (programs_loop api h n 0 []) (\<lambda>ps.
     Inr \<lparr>iop_IOP = h, data = bytes, programs = ps\<rparr>)))"

definition IOP_new :: "parse_api \<Rightarrow> byte list \<Rightarrow> error + IOP" where
  "IOP_new api buffer = initialize api buffer"

section \<open>Native calls that act on the device\<close>

text \<open>
  The native runtime is a black box with a state of its own (driver, device and every
  buffer the native code reads or writes), of an arbitrary type \<open>'w\<close>. A native call takes
  that state and returns its status, its out-parameters and the new state. Each call the
  wrapper makes is recorded as an event, in call order.
\<close>

record 'w runtime_api =
  groq_tensor_layout_to_host :: "handle \<Rightarrow> ptr \<Rightarrow> nat \<Rightarrow> ptr \<Rightarrow> nat \<Rightarrow> 'w \<Rightarrow> Status \<times> 'w"
  groq_tensor_layout_from_host :: "handle \<Rightarrow> ptr \<Rightarrow> nat \<Rightarrow> ptr \<Rightarrow> nat \<Rightarrow> 'w \<Rightarrow> Status \<times> 'w"
  groq_get_data_handle :: "handle \<Rightarrow> nat \<Rightarrow> 'w \<Rightarrow> (Status \<times> ptr) \<times> 'w"
  groq_invoke :: "handle \<Rightarrow> handle \<Rightarrow> nat \<Rightarrow> handle \<Rightarrow> nat \<Rightarrow> 'w \<Rightarrow> (Status \<times> handle) \<times> 'w"
  groq_wait_for_completion :: "handle \<Rightarrow> nat \<Rightarrow> 'w \<Rightarrow> Status \<times> 'w"
  groq_allocate_inputs_iobuffer_array :: "handle \<Rightarrow> handle \<Rightarrow> nat \<Rightarrow> 'w \<Rightarrow> (Status \<times> handle) \<times> 'w"
  groq_allocate_outputs_iobuffer_array :: "handle \<Rightarrow> handle \<Rightarrow> nat \<Rightarrow> 'w \<Rightarrow> (Status \<times> handle) \<times> 'w"

datatype event =
    ToHost handle ptr nat ptr nat Status
  | FromHost handle ptr nat ptr nat Status
  | GetDataHandle handle nat Status ptr
  | Invoke handle handle nat handle nat Status handle
  | WaitForCompletion handle nat Status
  | AllocateInputs handle handle nat Status handle
  | AllocateOutputs handle handle nat Status handle

text \<open>
  A wrapper operation on the device: from the native state to its outcome (an error or a
  value), the native state afterwards and the native calls it made.
\<close>

type_synonym ('w, 'a) io = "'w \<Rightarrow> (error + 'a) \<times> 'w \<times> event list"

definition return_io :: "'a \<Rightarrow> ('w, 'a) io" where
  "return_io a w = (Inr a, w, [])"

definition throw_io :: "error \<Rightarrow> ('w, 'a) io" where
  "throw_io e w = (Inl e, w, [])"

definition lift_io :: "error + 'a \<Rightarrow> ('w, 'a) io" where
  "lift_io r w = (r, w, [])"

definition bind_io :: "('w, 'a) io \<Rightarrow> ('a \<Rightarrow> ('w, 'b) io) \<Rightarrow> ('w, 'b) io" where
  "bind_io m f w =
     (case m w of
        (Inl e, w1, t1) \<Rightarrow> (Inl e, w1, t1)
      | (Inr a, w1, t1) \<Rightarrow> (case f a w1 of (r, w2, t2) \<Rightarrow> (r, w2, t1 @ t2)))"

text \<open>\<^verbatim>\<open>assert(c)\<close>: nothing when \<^verbatim>\<open>NDEBUG\<close> is defined, otherwise abort unless \<open>c\<close>.\<close>

definition assert_io :: "bool \<Rightarrow> bool \<Rightarrow> ('w, unit) io" where
  "assert_io NDEBUG c = (if NDEBUG \<or> c then return_io () else throw_io assertion_abort)"

text \<open>\<^verbatim>\<open>GROQOK\<close> around a native call that has been recorded.\<close>

definition GROQOK_io :: "string \<Rightarrow> ('w \<Rightarrow> (Status \<times> 'a) \<times> 'w \<times> event list) \<Rightarrow> ('w, 'a) io" where
  "GROQOK_io x call w = (case call w of (r, w1, t1) \<Rightarrow> (GROQOK x r, w1, t1))"

definition call_to_host ::
  "'w runtime_api \<Rightarrow> handle \<Rightarrow> ptr \<Rightarrow> nat \<Rightarrow> ptr \<Rightarrow> nat \<Rightarrow> 'w \<Rightarrow> (Status \<times> unit) \<times> 'w \<times> event list" where
  "call_to_host rt l input inputSize output outputSize w =
     (case groq_tensor_layout_to_host rt l input inputSize output outputSize w of
        (st, w1) \<Rightarrow> ((st, ()), w1, [ToHost l input inputSize output outputSize st]))"

definition call_from_host ::
  "'w runtime_api \<Rightarrow> handle \<Rightarrow> ptr \<Rightarrow> nat \<Rightarrow> ptr \<Rightarrow> nat \<Rightarrow> 'w \<Rightarrow> (Status \<times> unit) \<times> 'w \<times> event list" where
  "call_from_host rt l input inputSize output outputSize w =
     (case groq_tensor_layout_from_host rt l input inputSize output outputSize w of
        (st, w1) \<Rightarrow> ((st, ()), w1, [FromHost l input inputSize output outputSize st]))"

section \<open>\<^verbatim>\<open>TensorLayout::toHost\<close> and \<^verbatim>\<open>TensorLayout::fromHost\<close>\<close>

definition toHost :: "'w runtime_api \<Rightarrow> TensorLayout \<Rightarrow> ptr \<Rightarrow> nat \<Rightarrow> ptr \<Rightarrow> nat \<Rightarrow> ('w, unit) io" where
  "toHost rt L input inputSize output outputSize =
     (if inputSize \<noteq> getIoSize L then throw_io (runtime_error ''Size mismatch'')
      else if outputSize \<noteq> getHostSize L then throw_io (runtime_error ''Size mismatch'')
      else GROQOK_io ''groq_tensor_layout_to_host(layout, input, inputSize, output, outputSize)''
             (call_to_host rt (layout L) input inputSize output outputSize))"

definition fromHost :: "'w runtime_api \<Rightarrow> TensorLayout \<Rightarrow> ptr \<Rightarrow> nat \<Rightarrow> ptr \<Rightarrow> nat \<Rightarrow> ('w, unit) io" where
  "fromHost rt L input inputSize output outputSize =
     (if inputSize \<noteq> getHostSize L then
        throw_io (runtime_error (''Input size mismatch; expected '' @ to_string (getHostSize L) @ '' got ''
                                 @ to_string inputSize))
      else if outputSize \<noteq> getIoSize L then
        throw_io (runtime_error (''Output size mismatch; expected '' @ to_string (getIoSize L) @ '' got ''
                                 @ to_string outputSize))
      else GROQOK_io ''groq_tensor_layout_from_host(layout, input, inputSize, output, outputSize)''
             (call_from_host rt (layout L) input inputSize output outputSize))"

section \<open>\<^verbatim>\<open>SimpleRunner\<close>\<close>

record SimpleRunner =
  iop :: IOP
  programIndex :: nat
  entrypointIndex :: nat
  tspInputSize :: nat
  tspOutputSize :: nat
  numInputs :: nat
  numOutputs :: nat
  inputIoba :: handle
  outputIoba :: handle
  inputBuffers :: "ptr list"
  outputBuffers :: "ptr list"
  inputSizes :: "nat list"
  outputSizes :: "nat list"

text \<open>
  The two private accessors read the members \<^verbatim>\<open>iop\<close>, \<^verbatim>\<open>programIndex\<close> and
  \<^verbatim>\<open>entrypointIndex\<close> only; the constructor calls them when just these are initialised,
  so they take the three values.
\<close>

definition inputTensorLayouts :: "IOP \<Rightarrow> nat \<Rightarrow> nat \<Rightarrow> error + TensorLayout list" where
  "inputTensorLayouts c pIndex eIndex =
     ebind (at (getPrograms c) pIndex) (\<lambda>program.
     ebind (at (getEntrypoints program) eIndex) (\<lambda>ep.
     Inr (getTensorLayouts (getInputIODescriptor ep))))"

definition outputTensorLayouts :: "IOP \<Rightarrow> nat \<Rightarrow> nat \<Rightarrow> error + TensorLayout list" where
  "outputTensorLayouts c pIndex eIndex =
     ebind (at (getPrograms c) pIndex) (\<lambda>program.
     ebind (at (getEntrypoints program) eIndex) (\<lambda>ep.
     Inr (getTensorLayouts (getOutputIODescriptor ep))))"

definition call_allocate_inputs ::
  "'w runtime_api \<Rightarrow> handle \<Rightarrow> handle \<Rightarrow> nat \<Rightarrow> 'w \<Rightarrow> (Status \<times> handle) \<times> 'w \<times> event list" where
  "call_allocate_inputs rt driver h n w =
     (case groq_allocate_inputs_iobuffer_array rt driver h n w of
        ((st, ioba), w1) \<Rightarrow> ((st, ioba), w1, [AllocateInputs driver h n st ioba]))"

definition call_allocate_outputs ::
  "'w runtime_api \<Rightarrow> handle \<Rightarrow> handle \<Rightarrow> nat \<Rightarrow> 'w \<Rightarrow> (Status \<times> handle) \<times> 'w \<times> event list" where
  "call_allocate_outputs rt driver h n w =
     (case groq_allocate_outputs_iobuffer_array rt driver h n w of
        ((st, ioba), w1) \<Rightarrow> ((st, ioba), w1, [AllocateOutputs driver h n st ioba]))"

definition call_get_data_handle ::
  "'w runtime_api \<Rightarrow> handle \<Rightarrow> nat \<Rightarrow> 'w \<Rightarrow> (Status \<times> ptr) \<times> 'w \<times> event list" where
  "call_get_data_handle rt ioba n w =
     (case groq_get_data_handle rt ioba n w of
        ((st, p), w1) \<Rightarrow> ((st, p), w1, [GetDataHandle ioba n st p]))"

definition call_invoke ::
  "'w runtime_api \<Rightarrow> handle \<Rightarrow> handle \<Rightarrow> nat \<Rightarrow> handle \<Rightarrow> nat \<Rightarrow> 'w \<Rightarrow> (Status \<times> handle) \<times> 'w \<times> event list" where
  "call_invoke rt device inIoba nthInput outIoba nthOutput w =
     (case groq_invoke rt device inIoba nthInput outIoba nthOutput w of
        ((st, completion), w1) \<Rightarrow>
          ((st, completion), w1, [Invoke device inIoba nthInput outIoba nthOutput st completion]))"

definition call_wait_for_completion ::
  "'w runtime_api \<Rightarrow> handle \<Rightarrow> nat \<Rightarrow> 'w \<Rightarrow> (Status \<times> unit) \<times> 'w \<times> event list" where
  "call_wait_for_completion rt completion timeout w =
     (case groq_wait_for_completion rt completion timeout w of
        (st, w1) \<Rightarrow> ((st, ()), w1, [WaitForCompletion completion timeout st]))"

text \<open>
  The constructor: the member initialisers in declaration order, then the two allocations
  and the two assertions of the body.
\<close>

definition SimpleRunner_new ::
  "bool \<Rightarrow> parse_api \<Rightarrow> 'w runtime_api \<Rightarrow> handle \<Rightarrow> IOP \<Rightarrow> nat \<Rightarrow> nat \<Rightarrow> ('w, SimpleRunner) io" where
  "SimpleRunner_new NDEBUG api rt driver c pIndex eIndex =
     bind_io (lift_io (inputTensorLayouts c pIndex eIndex)) (\<lambda>ils.
     bind_io (lift_io (outputTensorLayouts c pIndex eIndex)) (\<lambda>ols.
     bind_io (GROQOK_io ''groq_allocate_inputs_iobuffer_array(driver.handle(), iop.handle(), 1, &inputIoba)''
                (call_allocate_inputs rt driver (handle_IOP c) 1)) (\<lambda>inIoba.
     bind_io (GROQOK_io ''groq_allocate_outputs_iobuffer_array(driver.handle(), iop.handle(), 1, &outputIoba)''
                (call_allocate_outputs rt driver (handle_IOP c) 1)) (\<lambda>outIoba.
     bind_io (assert_io NDEBUG (inIoba \<noteq> nullptr)) (\<lambda>_.
     bind_io (assert_io NDEBUG (outIoba \<noteq> nullptr)) (\<lambda>_.
     return_io
       \<lparr>iop = c, programIndex = pIndex, entrypointIndex = eIndex,
        tspInputSize = groq_program_get_input_size api (handle_IOP c) pIndex,
        tspOutputSize = groq_program_get_output_size api (handle_IOP c) pIndex,
        numInputs = length ils, numOutputs = length ols,
        inputIoba = inIoba, outputIoba = outIoba,
        inputBuffers = replicate (length ils) nullptr,
        outputBuffers = replicate (length ols) nullptr,
        inputSizes = replicate (length ils) 0,
        outputSizes = replicate (length ols) 0\<rparr>))))))"

text \<open>
  The binding calls change the runner itself; they return the outcome together with the
  runner as the call leaves it, also when it throws.
\<close>

definition addInputBuffer ::
  "bool \<Rightarrow> ptr \<Rightarrow> nat \<Rightarrow> nat \<Rightarrow> SimpleRunner \<Rightarrow> (error + unit) \<times> SimpleRunner" where
  "addInputBuffer NDEBUG buffer sz index s =
     (case ebind (inputTensorLayouts (iop s) (programIndex s) (entrypointIndex s)) (\<lambda>ls. at ls index) of
        Inl e \<Rightarrow> (Inl e, s)
      | Inr L \<Rightarrow>
          if sz \<noteq> getHostSize L then
            (Inl (runtime_error (''Bad data size; expected '' @ to_string (getHostSize L) @ '' got ''
                                 @ to_string sz)), s)
          else if \<not> NDEBUG \<and> buffer = nullptr then (Inl assertion_abort, s)
          else
            (case at_assign (inputBuffers s) index buffer of
               Inl e \<Rightarrow> (Inl e, s)
             | Inr bufs \<Rightarrow>
                 (case at_assign (inputSizes s) index sz of
                    Inl e \<Rightarrow> (Inl e, s\<lparr>inputBuffers := bufs\<rparr>)
                  | Inr szs \<Rightarrow> (Inr (), s\<lparr>inputBuffers := bufs, inputSizes := szs\<rparr>))))"

definition addOutputBuffer ::
  "bool \<Rightarrow> ptr \<Rightarrow> nat \<Rightarrow> nat \<Rightarrow> SimpleRunner \<Rightarrow> (error + unit) \<times> SimpleRunner" where
  "addOutputBuffer NDEBUG buffer sz index s =
     (case ebind (outputTensorLayouts (iop s) (programIndex s) (entrypointIndex s)) (\<lambda>ls. at ls index) of
        Inl e \<Rightarrow> (Inl e, s)
      | Inr L \<Rightarrow>
          if sz \<noteq> getHostSize L then
            (Inl (runtime_error (''Bad data size; expected '' @ to_string (getHostSize L) @ '' got ''
                                 @ to_string sz)), s)
          else if \<not> NDEBUG \<and> buffer = nullptr then (Inl assertion_abort, s)
          else
            (case at_assign (outputBuffers s) index buffer of
               Inl e \<Rightarrow> (Inl e, s)
             | Inr bufs \<Rightarrow>
                 (case at_assign (outputSizes s) index sz of
                    Inl e \<Rightarrow> (Inl e, s\<lparr>outputBuffers := bufs\<rparr>)
                  | Inr szs \<Rightarrow> (Inr (), s\<lparr>outputBuffers := bufs, outputSizes := szs\<rparr>))))"

subsection \<open>\<^verbatim>\<open>SimpleRunner::invoke\<close>\<close>

text \<open>One pass of the first loop: user data into the layout the device expects.\<close>

definition input_body :: "bool \<Rightarrow> 'w runtime_api \<Rightarrow> SimpleRunner \<Rightarrow> nat \<Rightarrow> ('w, unit) io" where
  "input_body NDEBUG rt s i =
     bind_io (lift_io (ebind (inputTensorLayouts (iop s) (programIndex s) (entrypointIndex s))
                         (\<lambda>ls. at ls i))) (\<lambda>L.
     bind_io (lift_io (at (inputBuffers s) i)) (\<lambda>input.
     bind_io (lift_io (at (inputSizes s) i)) (\<lambda>inputSize.
     bind_io (GROQOK_io ''groq_get_data_handle(inputIoba, 0, &output)''
                (call_get_data_handle rt (inputIoba s) 0)) (\<lambda>output.
     bind_io (assert_io NDEBUG (input \<noteq> nullptr)) (\<lambda>_.
     bind_io (assert_io NDEBUG (output \<noteq> nullptr)) (\<lambda>_.
     fromHost rt L input inputSize output (tspInputSize s)))))))"

function input_loop :: "bool \<Rightarrow> 'w runtime_api \<Rightarrow> SimpleRunner \<Rightarrow> nat \<Rightarrow> ('w, unit) io" where
  "input_loop NDEBUG rt s i =
     (if i < numInputs s then
        bind_io (input_body NDEBUG rt s i) (\<lambda>_. input_loop NDEBUG rt s (Suc i))
      else return_io ())"
  by pat_completeness auto
termination
  by (relation "measure (\<lambda>(NDEBUG, rt, s, i). numInputs s - i)") auto

declare input_loop.simps [simp del]

text \<open>The execute call and the wait for its completion, 30000 milliseconds at most.\<close>

definition execute :: "'w runtime_api \<Rightarrow> SimpleRunner \<Rightarrow> handle \<Rightarrow> ('w, unit) io" where
  "execute rt s device =
     bind_io (GROQOK_io ''groq_invoke(device.handle(), inputIoba, nthInput, outputIoba, nthOutput, &completion)''
                (call_invoke rt device (inputIoba s) 0 (outputIoba s) 0)) (\<lambda>completion.
     GROQOK_io ''groq_wait_for_completion(completion, 30000)''
       (call_wait_for_completion rt completion 30000))"

text \<open>One pass of the second loop: device data into the layout the user expects.\<close>

definition output_body :: "bool \<Rightarrow> 'w runtime_api \<Rightarrow> SimpleRunner \<Rightarrow> nat \<Rightarrow> ('w, unit) io" where
  "output_body NDEBUG rt s i =
     bind_io (lift_io (ebind (outputTensorLayouts (iop s) (programIndex s) (entrypointIndex s))
                         (\<lambda>ls. at ls i))) (\<lambda>L.
     bind_io (lift_io (at (outputBuffers s) i)) (\<lambda>output.
     bind_io (lift_io (at (outputSizes s) i)) (\<lambda>outputSize.
     bind_io (GROQOK_io ''groq_get_data_handle(outputIoba, 0, &input)''
                (call_get_data_handle rt (outputIoba s) 0)) (\<lambda>input.
     bind_io (assert_io NDEBUG (input \<noteq> nullptr)) (\<lambda>_.
     bind_io (assert_io NDEBUG (output \<noteq> nullptr)) (\<lambda>_.
     toHost rt L input (getIoSize L) output outputSize))))))"

function output_loop :: "bool \<Rightarrow> 'w runtime_api \<Rightarrow> SimpleRunner \<Rightarrow> nat \<Rightarrow> ('w, unit) io" where
  "output_loop NDEBUG rt s i =
     (if i < numOutputs s then
        bind_io (output_body NDEBUG rt s i) (\<lambda>_. output_loop NDEBUG rt s (Suc i))
      else return_io ())"
  by pat_completeness auto
termination
  by (relation "measure (\<lambda>(NDEBUG, rt, s, i). numOutputs s - i)") auto

declare output_loop.simps [simp del]

definition invoke :: "bool \<Rightarrow> 'w runtime_api \<Rightarrow> SimpleRunner \<Rightarrow> handle \<Rightarrow> ('w, unit) io" where
  "invoke NDEBUG rt s device =
     bind_io (assert_io NDEBUG (inputIoba s \<noteq> nullptr)) (\<lambda>_.
     bind_io (assert_io NDEBUG (outputIoba s \<noteq> nullptr)) (\<lambda>_.
     bind_io (input_loop NDEBUG rt s 0) (\<lambda>_.
     bind_io (execute rt s device) (\<lambda>_.
     output_loop NDEBUG rt s 0))))"

section \<open>What the container declares\<close>

text \<open>
  The tree a container declares, read off the native calls alone: the \<open>i\<close>-th element of
  every sequence is built from the \<open>i\<close>-th handle the native enumeration returns. The
  \<open>calls_ok\<close> predicates say that every native call made for an object reports
  \<^verbatim>\<open>GROQ_SUCCESS\<close>. The constructors are compared with these below.
\<close>

definition declared_TensorLayout :: "parse_api \<Rightarrow> handle \<Rightarrow> string \<Rightarrow> nat \<Rightarrow> TensorLayout" where
  "declared_TensorLayout api l nm sz =
     \<lparr>layout = l, name_TL = nm, iodSize = sz,
      size_TL = snd (groq_tensor_layout_get_size api l),
      format = snd (groq_tensor_layout_get_format api l),
      dimensions = map (\<lambda>k. snd (groq_tensor_layout_get_nth_dimension api l k))
                     [0..<snd (groq_tensor_layout_get_number_of_dimensions api l)]\<rparr>"

definition layout_calls_ok :: "parse_api \<Rightarrow> handle \<Rightarrow> bool" where
  "layout_calls_ok api l \<longleftrightarrow>
     fst (groq_tensor_layout_get_number_of_dimensions api l) = GROQ_SUCCESS \<and>
     fst (groq_tensor_layout_get_size api l) = GROQ_SUCCESS \<and>
     fst (groq_tensor_layout_get_format api l) = GROQ_SUCCESS \<and>
     list_all (\<lambda>k. fst (groq_tensor_layout_get_nth_dimension api l k) = GROQ_SUCCESS)
       [0..<snd (groq_tensor_layout_get_number_of_dimensions api l)]"

definition declared_layout :: "parse_api \<Rightarrow> handle \<Rightarrow> nat \<Rightarrow> nat \<Rightarrow> TensorLayout" where
  "declared_layout api iodescriptor sz i =
     declared_TensorLayout api (snd (groq_iodescriptor_get_nth_tensor_layout api iodescriptor i))
       (snd (groq_tensor_layout_get_name api (snd (groq_iodescriptor_get_nth_tensor_layout api iodescriptor i)))) sz"

definition declared_IODescriptor :: "parse_api \<Rightarrow> handle \<Rightarrow> nat \<Rightarrow> IODescriptor" where
  "declared_IODescriptor api iodescriptor sz =
     \<lparr>layouts = map (declared_layout api iodescriptor sz)
                  [0..<snd (groq_iodescriptor_get_number_of_tensor_layouts api iodescriptor)],
      size_IOD = sz\<rparr>"

definition declared_EntryPoint :: "parse_api \<Rightarrow> handle \<Rightarrow> string \<Rightarrow> EntryPoint" where
  "declared_EntryPoint api entrypoint nm =
     \<lparr>name_EP = nm,
      input_EP = declared_IODescriptor api (snd (groq_entrypoint_get_input_iodescriptor api entrypoint))
                   (snd (groq_entrypoint_get_input_size api entrypoint)),
      output_EP = declared_IODescriptor api (snd (groq_entrypoint_get_output_iodescriptor api entrypoint))
                    (snd (groq_entrypoint_get_output_size api entrypoint))\<rparr>"

definition declared_entrypoint :: "parse_api \<Rightarrow> handle \<Rightarrow> nat \<Rightarrow> EntryPoint" where
  "declared_entrypoint api program j =
     declared_EntryPoint api (snd (groq_get_nth_entrypoint api program j))
       (snd (groq_entrypoint_get_name api (snd (groq_get_nth_entrypoint api program j))))"

definition declared_Program :: "parse_api \<Rightarrow> handle \<Rightarrow> string \<Rightarrow> Program" where
  "declared_Program api program nm =
     \<lparr>entrypoints = map (declared_entrypoint api program)
                      [0..<snd (groq_get_number_of_entrypoints api program)],
      name_P = nm\<rparr>"

definition declared_program :: "parse_api \<Rightarrow> handle \<Rightarrow> nat \<Rightarrow> Program" where
  "declared_program api h p =
     declared_Program api (snd (groq_get_nth_program api h p)) (snd (groq_program_name api h p))"

definition declared_IOP :: "parse_api \<Rightarrow> byte list \<Rightarrow> IOP" where
  "declared_IOP api bytes =
     \<lparr>iop_IOP = snd (groq_iop_init api bytes), data = bytes,
      programs = map (declared_program api (snd (groq_iop_init api bytes)))
                   [0..<snd (groq_iop_get_number_of_programs api (snd (groq_iop_init api bytes)))]\<rparr>"

definition descriptor_calls_ok :: "parse_api \<Rightarrow> handle \<Rightarrow> bool" where
  "descriptor_calls_ok api iodescriptor \<longleftrightarrow>
     fst (groq_iodescriptor_get_number_of_tensor_layouts api iodescriptor) = GROQ_SUCCESS \<and>
     list_all (\<lambda>i. fst (groq_iodescriptor_get_nth_tensor_layout api iodescriptor i) = GROQ_SUCCESS \<and>
                   fst (groq_tensor_layout_get_name api
                          (snd (groq_iodescriptor_get_nth_tensor_layout api iodescriptor i))) = GROQ_SUCCESS \<and>
                   layout_calls_ok api (snd (groq_iodescriptor_get_nth_tensor_layout api iodescriptor i)))
       [0..<snd (groq_iodescriptor_get_number_of_tensor_layouts api iodescriptor)]"

definition entrypoint_calls_ok :: "parse_api \<Rightarrow> handle \<Rightarrow> bool" where
  "entrypoint_calls_ok api entrypoint \<longleftrightarrow>
     fst (groq_entrypoint_get_input_iodescriptor api entrypoint) = GROQ_SUCCESS \<and>
     fst (groq_entrypoint_get_output_iodescriptor api entrypoint) = GROQ_SUCCESS \<and>
     fst (groq_entrypoint_get_input_size api entrypoint) = GROQ_SUCCESS \<and>
     fst (groq_entrypoint_get_output_size api entrypoint) = GROQ_SUCCESS \<and>
     descriptor_calls_ok api (snd (groq_entrypoint_get_input_iodescriptor api entrypoint)) \<and>
     descriptor_calls_ok api (snd (groq_entrypoint_get_output_iodescriptor api entrypoint))"

definition program_calls_ok :: "parse_api \<Rightarrow> handle \<Rightarrow> bool" where
  "program_calls_ok api program \<longleftrightarrow>
     fst (groq_get_number_of_entrypoints api program) = GROQ_SUCCESS \<and>
     list_all (\<lambda>j. fst (groq_get_nth_entrypoint api program j) = GROQ_SUCCESS \<and>
                   fst (groq_entrypoint_get_name api (snd (groq_get_nth_entrypoint api program j))) = GROQ_SUCCESS \<and>
                   entrypoint_calls_ok api (snd (groq_get_nth_entrypoint api program j)))
       [0..<snd (groq_get_number_of_entrypoints api program)]"

definition parse_calls_ok :: "parse_api \<Rightarrow> byte list \<Rightarrow> bool" where
  "parse_calls_ok api bytes \<longleftrightarrow>
     fst (groq_iop_init api bytes) = GROQ_SUCCESS \<and>
     fst (groq_iop_get_number_of_programs api (snd (groq_iop_init api bytes))) = GROQ_SUCCESS \<and>
     list_all (\<lambda>p. fst (groq_get_nth_program api (snd (groq_iop_init api bytes)) p) = GROQ_SUCCESS \<and>
                   fst (groq_program_name api (snd (groq_iop_init api bytes)) p) = GROQ_SUCCESS \<and>
                   program_calls_ok api (snd (groq_get_nth_program api (snd (groq_iop_init api bytes)) p)))
       [0..<snd (groq_iop_get_number_of_programs api (snd (groq_iop_init api bytes)))]"

definition program_handle :: "parse_api \<Rightarrow> byte list \<Rightarrow> nat \<Rightarrow> handle" where
  "program_handle api bytes p = snd (groq_get_nth_program api (snd (groq_iop_init api bytes)) p)"

definition entrypoint_handle :: "parse_api \<Rightarrow> byte list \<Rightarrow> nat \<Rightarrow> nat \<Rightarrow> handle" where
  "entrypoint_handle api bytes p e = snd (groq_get_nth_entrypoint api (program_handle api bytes p) e)"

definition input_descriptor_handle :: "parse_api \<Rightarrow> byte list \<Rightarrow> nat \<Rightarrow> nat \<Rightarrow> handle" where
  "input_descriptor_handle api bytes p e =
     snd (groq_entrypoint_get_input_iodescriptor api (entrypoint_handle api bytes p e))"

definition output_descriptor_handle :: "parse_api \<Rightarrow> byte list \<Rightarrow> nat \<Rightarrow> nat \<Rightarrow> handle" where
  "output_descriptor_handle api bytes p e =
     snd (groq_entrypoint_get_output_iodescriptor api (entrypoint_handle api bytes p e))"

section \<open>Reading the record of native calls\<close>

fun is_FromHost :: "event \<Rightarrow> bool" where
  "is_FromHost (FromHost l inp inSize outp outSize st) = True"
| "is_FromHost _ = False"

fun is_ToHost :: "event \<Rightarrow> bool" where
  "is_ToHost (ToHost l inp inSize outp outSize st) = True"
| "is_ToHost _ = False"

fun is_Invoke :: "event \<Rightarrow> bool" where
  "is_Invoke (Invoke device inIoba nthInput outIoba nthOutput st completion) = True"
| "is_Invoke _ = False"

fun is_Wait :: "event \<Rightarrow> bool" where
  "is_Wait (WaitForCompletion completion timeout st) = True"
| "is_Wait _ = False"

fun status_of :: "event \<Rightarrow> Status" where
  "status_of (ToHost l inp inSize outp outSize st) = st"
| "status_of (FromHost l inp inSize outp outSize st) = st"
| "status_of (GetDataHandle ioba n st p) = st"
| "status_of (Invoke device inIoba nthInput outIoba nthOutput st completion) = st"
| "status_of (WaitForCompletion completion timeout st) = st"
| "status_of (AllocateInputs driver h n st ioba) = st"
| "status_of (AllocateOutputs driver h n st ioba) = st"

fun input_phase_event :: "event \<Rightarrow> bool" where
  "input_phase_event (GetDataHandle ioba n st p) = True"
| "input_phase_event (FromHost l inp inSize outp outSize st) = True"
| "input_phase_event _ = False"

fun output_phase_event :: "event \<Rightarrow> bool" where
  "output_phase_event (GetDataHandle ioba n st p) = True"
| "output_phase_event (ToHost l inp inSize outp outSize st) = True"
| "output_phase_event _ = False"

text \<open>
  The arguments of a conversion from host that the record shows (layout handle, host pointer,
  host size, device size), and the conversion that the input loop makes for index \<open>k\<close>.
\<close>

fun from_host_args :: "event \<Rightarrow> (handle \<times> ptr \<times> nat \<times> nat) option" where
  "from_host_args (FromHost l inp inSize outp outSize st) = Some (l, inp, inSize, outSize)"
| "from_host_args _ = None"

definition input_conversion :: "SimpleRunner \<Rightarrow> TensorLayout list \<Rightarrow> nat \<Rightarrow> handle \<times> ptr \<times> nat \<times> nat" where
  "input_conversion s ils k = (layout (ils ! k), inputBuffers s ! k, inputSizes s ! k, tspInputSize s)"

section \<open>Runners as callers make them\<close>

text \<open>
  A caller constructs a runner and binds buffers with a series of \<^verbatim>\<open>addInputBuffer\<close> and
  \<^verbatim>\<open>addOutputBuffer\<close> calls, as \<^verbatim>\<open>main\<close> of the example does; the series stops at the
  first call that throws. \<open>runner_inv\<close> is what the constructor establishes and the
  binding calls keep: both layout sequences exist and the four binding vectors have their
  lengths.
\<close>

datatype binding = AddInputBuffer ptr nat nat | AddOutputBuffer ptr nat nat

fun apply_binding :: "bool \<Rightarrow> binding \<Rightarrow> SimpleRunner \<Rightarrow> (error + unit) \<times> SimpleRunner" where
  "apply_binding NDEBUG (AddInputBuffer buffer sz index) s = addInputBuffer NDEBUG buffer sz index s"
| "apply_binding NDEBUG (AddOutputBuffer buffer sz index) s = addOutputBuffer NDEBUG buffer sz index s"

fun apply_bindings :: "bool \<Rightarrow> binding list \<Rightarrow> SimpleRunner \<Rightarrow> (error + unit) \<times> SimpleRunner" where
  "apply_bindings NDEBUG [] s = (Inr (), s)"
| "apply_bindings NDEBUG (b # bs) s =
     (case apply_binding NDEBUG b s of
        (Inl e, s1) \<Rightarrow> (Inl e, s1)
      | (Inr u, s1) \<Rightarrow> apply_bindings NDEBUG bs s1)"

definition runner_inv :: "SimpleRunner \<Rightarrow> bool" where
  "runner_inv s =
     (case inputTensorLayouts (iop s) (programIndex s) (entrypointIndex s) of
        Inl e \<Rightarrow> False
      | Inr ils \<Rightarrow>
          (case outputTensorLayouts (iop s) (programIndex s) (entrypointIndex s) of
             Inl e \<Rightarrow> False
           | Inr ols \<Rightarrow>
               numInputs s = length ils \<and> numOutputs s = length ols \<and>
               length (inputBuffers s) = length ils \<and> length (inputSizes s) = length ils \<and>
               length (outputBuffers s) = length ols \<and> length (outputSizes s) = length ols))"

section \<open>A small container and a native runtime to run the wrapper on\<close>

text \<open>
  One program \<open>mm\<close> with one entrypoint; input tensors \<open>A\<close> (4 host bytes) and \<open>B\<close>
  (8 host bytes) in a device buffer of 64 bytes, output tensor \<open>C\<close> (16 host bytes) in a
  device buffer of 32 bytes. Every native call succeeds; the native state counts the calls.
\<close>

definition demo_api :: parse_api where
  "demo_api =
     \<lparr>groq_iop_init = (\<lambda>bytes. (GROQ_SUCCESS, 1)),
      groq_iop_get_number_of_programs = (\<lambda>h. (GROQ_SUCCESS, 1)),
      groq_get_nth_program = (\<lambda>h n. (GROQ_SUCCESS, 10 + n)),
      groq_program_name = (\<lambda>h n. (GROQ_SUCCESS, ''mm'')),
      groq_get_number_of_entrypoints = (\<lambda>p. (GROQ_SUCCESS, 1)),
      groq_get_nth_entrypoint = (\<lambda>p n. (GROQ_SUCCESS, 20 + n)),
      groq_entrypoint_get_name = (\<lambda>e. (GROQ_SUCCESS, ''monolithic'')),
      groq_entrypoint_get_input_iodescriptor = (\<lambda>e. (GROQ_SUCCESS, 30)),
      groq_entrypoint_get_output_iodescriptor = (\<lambda>e. (GROQ_SUCCESS, 31)),
      groq_entrypoint_get_input_size = (\<lambda>e. (GROQ_SUCCESS, 64)),
      groq_entrypoint_get_output_size = (\<lambda>e. (GROQ_SUCCESS, 32)),
      groq_iodescriptor_get_number_of_tensor_layouts = (\<lambda>d. (GROQ_SUCCESS, if d = 30 then 2 else 1)),
      groq_iodescriptor_get_nth_tensor_layout = (\<lambda>d n. (GROQ_SUCCESS, 10 * d + n)),
      groq_tensor_layout_get_name =
        (\<lambda>l. (GROQ_SUCCESS, if l = 300 then ''A'' else if l = 301 then ''B'' else ''C'')),
      groq_tensor_layout_get_number_of_dimensions = (\<lambda>l. (GROQ_SUCCESS, 2)),
      groq_tensor_layout_get_size = (\<lambda>l. (GROQ_SUCCESS, if l = 300 then 4 else if l = 301 then 8 else 16)),
      groq_tensor_layout_get_format = (\<lambda>l. (GROQ_SUCCESS, 0)),
      groq_tensor_layout_get_nth_dimension = (\<lambda>l n. (GROQ_SUCCESS, 2)),
      groq_program_get_input_size = (\<lambda>h n. 64),
      groq_program_get_output_size = (\<lambda>h n. 32)\<rparr>"

definition demo_runtime :: "nat runtime_api" where
  "demo_runtime =
     \<lparr>groq_tensor_layout_to_host = (\<lambda>l input inputSize output outputSize w. (GROQ_SUCCESS, Suc w)),
      groq_tensor_layout_from_host = (\<lambda>l input inputSize output outputSize w. (GROQ_SUCCESS, Suc w)),
      groq_get_data_handle = (\<lambda>ioba n w. ((GROQ_SUCCESS, 1000 + ioba), Suc w)),
      groq_invoke = (\<lambda>device inIoba nthInput outIoba nthOutput w. ((GROQ_SUCCESS, 7), Suc w)),
      groq_wait_for_completion = (\<lambda>completion timeout w. (GROQ_SUCCESS, Suc w)),
      groq_allocate_inputs_iobuffer_array = (\<lambda>driver h n w. ((GROQ_SUCCESS, 100), Suc w)),
      groq_allocate_outputs_iobuffer_array = (\<lambda>driver h n w. ((GROQ_SUCCESS, 101), Suc w))\<rparr>"

definition demo_layout_A :: TensorLayout where
  "demo_layout_A = \<lparr>layout = 300, name_TL = ''A'', iodSize = 64, size_TL = 4, format = 0, dimensions = [2, 2]\<rparr>"

definition demo_layout_B :: TensorLayout where
  "demo_layout_B = \<lparr>layout = 301, name_TL = ''B'', iodSize = 64, size_TL = 8, format = 0, dimensions = [2, 2]\<rparr>"

definition demo_layout_C :: TensorLayout where
  "demo_layout_C = \<lparr>layout = 310, name_TL = ''C'', iodSize = 32, size_TL = 16, format = 0, dimensions = [2, 2]\<rparr>"

definition demo_iop :: IOP where
  "demo_iop =
     \<lparr>iop_IOP = 1, data = [1, 2, 3],
      programs =
        [\<lparr>entrypoints =
            [\<lparr>name_EP = ''monolithic'',
              input_EP = \<lparr>layouts = [demo_layout_A, demo_layout_B], size_IOD = 64\<rparr>,
              output_EP = \<lparr>layouts = [demo_layout_C], size_IOD = 32\<rparr>\<rparr>],
          name_P = ''mm''\<rparr>]\<rparr>"

text \<open>
  The same container with a layout whose size query fails, the same runtime with a failing
  \<^verbatim>\<open>groq_get_data_handle\<close>, the runner the constructor builds on the small container,
  the runner after binding all three buffers, and after binding all but input 0.
\<close>

definition broken_api :: parse_api where
  "broken_api = demo_api\<lparr>groq_tensor_layout_get_size :=
     (\<lambda>l. if l = 301 then (GROQ_FAILURE 5, 0) else (GROQ_SUCCESS, if l = 300 then 4 else 16))\<rparr>"

definition failing_runtime :: "nat runtime_api" where
  "failing_runtime = demo_runtime\<lparr>groq_get_data_handle := (\<lambda>ioba n w. ((GROQ_FAILURE 2, 0), Suc w))\<rparr>"

definition demo_runner :: SimpleRunner where
  "demo_runner =
     \<lparr>iop = demo_iop, programIndex = 0, entrypointIndex = 0, tspInputSize = 64, tspOutputSize = 32,
      numInputs = 2, numOutputs = 1, inputIoba = 100, outputIoba = 101,
      inputBuffers = [nullptr, nullptr], outputBuffers = [nullptr],
      inputSizes = [0, 0], outputSizes = [0]\<rparr>"

definition demo_bound :: SimpleRunner where
  "demo_bound = demo_runner\<lparr>inputBuffers := [500, 501], outputBuffers := [502],
                             inputSizes := [4, 8], outputSizes := [16]\<rparr>"


definition demo_trace :: "event list" where
  "demo_trace =
     [GetDataHandle 100 0 GROQ_SUCCESS 1100, FromHost 300 500 4 1100 64 GROQ_SUCCESS,
      GetDataHandle 100 0 GROQ_SUCCESS 1100, FromHost 301 501 8 1100 64 GROQ_SUCCESS,
      Invoke 9 100 0 101 0 GROQ_SUCCESS 7, WaitForCompletion 7 30000 GROQ_SUCCESS,
      GetDataHandle 101 0 GROQ_SUCCESS 1101, ToHost 310 1101 32 502 16 GROQ_SUCCESS]"

section \<open>Basic facts about the helpers\<close>

lemma GROQOK_SUCCESS [simp]: "GROQOK x (GROQ_SUCCESS, v) = Inr v"
  by (simp add: GROQOK_def)

lemma GROQOK_FAILURE [simp]: "GROQOK x (GROQ_FAILURE c, v) = Inl (GROQOK_error x c)"
  by (simp add: GROQOK_def)

lemma GROQOK_eq_Inr: "GROQOK x r = Inr v \<longleftrightarrow> r = (GROQ_SUCCESS, v)"
  by (cases r; cases "fst r") (auto simp: GROQOK_def)

lemma ebind_Inl [simp]: "ebind (Inl e) f = Inl e"
  by (simp add: ebind_def)

lemma ebind_Inr [simp]: "ebind (Inr a) f = f a"
  by (simp add: ebind_def)

lemma ebind_eq_Inr: "ebind m f = Inr b \<longleftrightarrow> (\<exists>a. m = Inr a \<and> f a = Inr b)"
  by (cases m) simp_all

lemma at_eq_Inr: "at xs i = Inr v \<longleftrightarrow> i < length xs \<and> v = xs ! i"
  by (auto simp: at_def)

lemma at_eq_Inl: "at xs i = Inl e \<longleftrightarrow> \<not> i < length xs \<and> e = out_of_range"
  by (auto simp: at_def)

lemma GROQOK_eq_Inr': "GROQOK x r = Inr v \<longleftrightarrow> fst r = GROQ_SUCCESS \<and> v = snd r"
  by (cases r; cases "fst r") (auto simp: GROQOK_def)

lemma GROQOK_eq_Inl: "GROQOK x r = Inl e \<longleftrightarrow> (\<exists>c. fst r = GROQ_FAILURE c \<and> e = GROQOK_error x c)"
  by (cases r; cases "fst r") (auto simp: GROQOK_def)

lemma ebind_eq_Inl: "ebind m f = Inl e \<longleftrightarrow> m = Inl e \<or> (\<exists>a. m = Inr a \<and> f a = Inl e)"
  by (cases m) simp_all

lemma upt_step: "k < n \<Longrightarrow> acc @ map f [k..<n] = (acc @ [f k]) @ map f [Suc k..<n]"
  by (simp add: upt_conv_Cons)

lemma range_step: "k < n \<Longrightarrow> (\<forall>i. k \<le> i \<and> i < n \<longrightarrow> P i) \<longleftrightarrow> P k \<and> (\<forall>i. Suc k \<le> i \<and> i < n \<longrightarrow> P i)"
  by (metis Suc_leI le_eq_less_or_eq not_less_eq_eq order_refl Suc_le_eq)

lemma ebind_assoc: "ebind (ebind m f) g = ebind m (\<lambda>a. ebind (f a) g)"
  by (cases m) simp_all

lemma loop_Inr_iff:
  fixes loop :: "nat \<Rightarrow> 'a list \<Rightarrow> error + 'a list"
  assumes step: "\<And>k acc. loop k acc =
    (if k < n then ebind (body k) (\<lambda>x. loop (Suc k) (acc @ [x])) else Inr acc)"
  shows "loop k acc = Inr res \<longleftrightarrow>
    (\<forall>i. k \<le> i \<and> i < n \<longrightarrow> (\<exists>x. body i = Inr x)) \<and> res = acc @ map (\<lambda>i. projr (body i)) [k..<n]"
proof (induction "n - k" arbitrary: k acc)
  case 0
  then have "\<not> k < n" by simp
  then show ?case
    by (subst step) auto
next
  case (Suc m)
  then have kn: "k < n" and m: "m = n - Suc k" by simp_all
  have "loop k acc = Inr res \<longleftrightarrow> (\<exists>x. body k = Inr x \<and> loop (Suc k) (acc @ [x]) = Inr res)"
    by (subst step) (simp add: kn ebind_eq_Inr)
  also have "\<dots> \<longleftrightarrow> (\<exists>x. body k = Inr x) \<and>
      (\<forall>i. Suc k \<le> i \<and> i < n \<longrightarrow> (\<exists>x. body i = Inr x)) \<and>
      res = (acc @ [projr (body k)]) @ map (\<lambda>i. projr (body i)) [Suc k..<n]"
    by (auto simp: Suc.hyps(1)[OF m])
  also have "\<dots> \<longleftrightarrow> (\<forall>i. k \<le> i \<and> i < n \<longrightarrow> (\<exists>x. body i = Inr x)) \<and>
      res = acc @ map (\<lambda>i. projr (body i)) [k..<n]"
    by (subst range_step[OF kn]) (subst upt_step[OF kn], blast)
  finally show ?case .
qed

lemma loop_Inl:
  fixes loop :: "nat \<Rightarrow> 'a list \<Rightarrow> error + 'a list"
  assumes step: "\<And>k acc. loop k acc =
    (if k < n then ebind (body k) (\<lambda>x. loop (Suc k) (acc @ [x])) else Inr acc)"
  shows "loop k acc = Inl e \<Longrightarrow> \<exists>i. k \<le> i \<and> i < n \<and> body i = Inl e"
proof (induction "n - k" arbitrary: k acc)
  case 0
  then have "\<not> k < n" by simp
  with "0.prems" show ?case
    by (subst (asm) step) simp
next
  case (Suc m)
  then have kn: "k < n" and m: "m = n - Suc k" by simp_all
  from Suc.prems have "body k = Inl e \<or> (\<exists>x. loop (Suc k) (acc @ [x]) = Inl e)"
    by (subst (asm) step) (auto simp: kn ebind_eq_Inl)
  then show ?case
  proof
    assume "body k = Inl e"
    with kn show ?thesis by auto
  next
    assume "\<exists>x. loop (Suc k) (acc @ [x]) = Inl e"
    then obtain x where "loop (Suc k) (acc @ [x]) = Inl e" ..
    from Suc.hyps(1)[OF m this] show ?thesis
      using Suc_leD by blast
  qed
qed

lemma loop_Inr_iff':
  fixes loop :: "nat \<Rightarrow> 'a list \<Rightarrow> error + 'a list"
  assumes step: "\<And>k acc. loop k acc =
    (if k < n then ebind (body k) (\<lambda>x. loop (Suc k) (acc @ [x])) else Inr acc)"
    and body: "\<And>i x. body i = Inr x \<longleftrightarrow> ok i \<and> x = val i"
  shows "loop k acc = Inr res \<longleftrightarrow> (\<forall>i. k \<le> i \<and> i < n \<longrightarrow> ok i) \<and> res = acc @ map val [k..<n]"
proof -
  have "map (\<lambda>i. projr (body i)) [k..<n] = map val [k..<n]" if "\<forall>i. k \<le> i \<and> i < n \<longrightarrow> ok i"
  proof (rule map_cong[OF refl])
    fix i assume "i \<in> set [k..<n]"
    with that have "ok i" by simp
    then have "body i = Inr (val i)" by (simp add: body)
    then show "projr (body i) = val i" by simp
  qed
  moreover have "(\<exists>x. body i = Inr x) \<longleftrightarrow> ok i" for i
    by (simp add: body)
  ultimately show ?thesis
    unfolding loop_Inr_iff[of loop n body, OF step] by auto
qed

section \<open>The wrapper run on the small container\<close>

lemma to_string_examples:
  "to_string 0 = ''0''" "to_string 3 = ''3''" "to_string 4 = ''4''" "to_string 8 = ''8''"
  "to_string 16 = ''16''" "to_string 63 = ''63''" "to_string 64 = ''64''"
  by (simp_all add: to_string.simps digit_char_def)

lemma IODescriptor_new_demo:
  "IODescriptor_new demo_api 30 64 = Inr \<lparr>layouts = [demo_layout_A, demo_layout_B], size_IOD = 64\<rparr>"
  by code_simp

lemma parse_calls_ok_demo: "parse_calls_ok demo_api [1, 2, 3]"
  by code_simp

lemma parse_calls_not_ok_broken: "\<not> parse_calls_ok broken_api [1, 2, 3]"
  by code_simp

lemma IOP_new_demo: "IOP_new demo_api [1, 2, 3] = Inr demo_iop"
  by code_simp

lemma IOP_new_broken:
  "IOP_new broken_api [1, 2, 3] = Inl (runtime_error ''Error 5: groq_tensor_layout_get_size(layout, &size)'')"
  by code_simp

lemma SimpleRunner_new_demo:
  "SimpleRunner_new False demo_api demo_runtime 5 demo_iop 0 0 0 =
     (Inr demo_runner, 2, [AllocateInputs 5 1 1 GROQ_SUCCESS 100, AllocateOutputs 5 1 1 GROQ_SUCCESS 101])"
  by code_simp

lemma apply_bindings_demo:
  "apply_bindings False [AddInputBuffer 501 8 1, AddInputBuffer 500 4 0, AddOutputBuffer 502 16 0] demo_runner =
     (Inr (), demo_bound)"
  by code_simp


lemma invoke_demo_bound: "invoke False demo_runtime demo_bound 9 2 = (Inr (), 10, demo_trace)"
  by code_simp



lemma invoke_failing_runtime:
  "invoke False failing_runtime demo_bound 9 2 =
     (Inl (runtime_error ''Error 2: groq_get_data_handle(inputIoba, 0, &output)''), 3,
      [GetDataHandle 100 0 (GROQ_FAILURE 2) 0])"
  by code_simp

lemma addInputBuffer_null_demo:
  "addInputBuffer False nullptr 4 0 demo_runner = (Inl assertion_abort, demo_runner)"
  by code_simp

lemma inputTensorLayouts_demo:
  "inputTensorLayouts demo_iop 0 0 = Inr [demo_layout_A, demo_layout_B]"
  "outputTensorLayouts demo_iop 0 0 = Inr [demo_layout_C]"
  by code_simp+


lemma SimpleRunner_new_failing:
  "SimpleRunner_new False demo_api failing_runtime 5 demo_iop 0 0 0 =
     (Inr demo_runner, 2, [AllocateInputs 5 1 1 GROQ_SUCCESS 100, AllocateOutputs 5 1 1 GROQ_SUCCESS 101])"
  by code_simp



section \<open>The size contract of the transcoding calls\<close>

text \<open>
  Claim C1. \<^verbatim>\<open>fromHost\<close> throws its size-mismatch \<^verbatim>\<open>std::runtime_error\<close> unless
  \<open>inputSize\<close> is the layout's host size and \<open>outputSize\<close> its IO size, and \<^verbatim>\<open>toHost\<close>
  throws unless \<open>inputSize\<close> is the IO size and \<open>outputSize\<close> the host size. A call that
  throws for this reason has made no native call and has left the native state, and with it
  every buffer, as it was. With matching sizes the call makes exactly one native conversion
  call, on the layout's handle with the caller's pointers and sizes, and its outcome is
  \<^verbatim>\<open>GROQOK\<close> of that call's status: success when the conversion reports success.
\<close>

theorem transcode_size_contract:
  "(inSize \<noteq> getHostSize L \<longrightarrow>
      fromHost rt L inp inSize outp outSize w =
        (Inl (runtime_error (''Input size mismatch; expected '' @ to_string (getHostSize L) @ '' got ''
                             @ to_string inSize)), w, []))
   \<and> (inSize = getHostSize L \<and> outSize \<noteq> getIoSize L \<longrightarrow>
      fromHost rt L inp inSize outp outSize w =
        (Inl (runtime_error (''Output size mismatch; expected '' @ to_string (getIoSize L) @ '' got ''
                             @ to_string outSize)), w, []))
   \<and> (inSize = getHostSize L \<and> outSize = getIoSize L \<longrightarrow>
      (\<forall>st w1. groq_tensor_layout_from_host rt (layout L) inp inSize outp outSize w = (st, w1) \<longrightarrow>
         fromHost rt L inp inSize outp outSize w =
           (GROQOK ''groq_tensor_layout_from_host(layout, input, inputSize, output, outputSize)'' (st, ()),
            w1, [FromHost (layout L) inp inSize outp outSize st]) \<and>
         (st = GROQ_SUCCESS \<longrightarrow> fst (fromHost rt L inp inSize outp outSize w) = Inr ())))
   \<and> (inSize' \<noteq> getIoSize L \<or> outSize' \<noteq> getHostSize L \<longrightarrow>
      toHost rt L inp' inSize' outp' outSize' w = (Inl (runtime_error ''Size mismatch''), w, []))
   \<and> (inSize' = getIoSize L \<and> outSize' = getHostSize L \<longrightarrow>
      (\<forall>st w1. groq_tensor_layout_to_host rt (layout L) inp' inSize' outp' outSize' w = (st, w1) \<longrightarrow>
         toHost rt L inp' inSize' outp' outSize' w =
           (GROQOK ''groq_tensor_layout_to_host(layout, input, inputSize, output, outputSize)'' (st, ()),
            w1, [ToHost (layout L) inp' inSize' outp' outSize' st]) \<and>
         (st = GROQ_SUCCESS \<longrightarrow> fst (toHost rt L inp' inSize' outp' outSize' w) = Inr ())))"
  by (simp add: fromHost_def toHost_def throw_io_def GROQOK_io_def call_from_host_def call_to_host_def)

theorem transcode_size_contract_witness:
  "fromHost demo_runtime demo_layout_A 500 3 600 64 0 =
     (Inl (runtime_error ''Input size mismatch; expected 4 got 3''), 0, [])
   \<and> fromHost demo_runtime demo_layout_A 500 4 600 63 0 =
     (Inl (runtime_error ''Output size mismatch; expected 64 got 63''), 0, [])
   \<and> fromHost demo_runtime demo_layout_A 500 4 600 64 0 =
     (Inr (), 1, [FromHost 300 500 4 600 64 GROQ_SUCCESS])
   \<and> toHost demo_runtime demo_layout_A 600 63 500 4 0 = (Inl (runtime_error ''Size mismatch''), 0, [])
   \<and> toHost demo_runtime demo_layout_A 600 64 500 4 0 =
     (Inr (), 1, [ToHost 300 600 64 500 4 GROQ_SUCCESS])"
  using transcode_size_contract [where rt = demo_runtime and L = demo_layout_A and w = 0
      and inp = 500 and inSize = 3 and outp = 600 and outSize = 64
      and inp' = 600 and inSize' = 63 and outp' = 500 and outSize' = 4]
    transcode_size_contract [where rt = demo_runtime and L = demo_layout_A and w = 0
      and inp = 500 and inSize = 4 and outp = 600 and outSize = 63
      and inp' = 600 and inSize' = 64 and outp' = 500 and outSize' = 4]
    transcode_size_contract [where rt = demo_runtime and L = demo_layout_A and w = 0
      and inp = 500 and inSize = 4 and outp = 600 and outSize = 64
      and inp' = 600 and inSize' = 64 and outp' = 500 and outSize' = 4]
  by (simp add: demo_runtime_def demo_layout_A_def getHostSize_def getIoSize_def to_string_examples)

section \<open>What a size-mismatch error reports\<close>

text \<open>
  Claim C4. Every size-mismatch error is to report the expected and the actual byte size.
  \<^verbatim>\<open>fromHost\<close>, \<^verbatim>\<open>addInputBuffer\<close> and \<^verbatim>\<open>addOutputBuffer\<close> build their message from both
  numbers; \<^verbatim>\<open>toHost\<close> throws the fixed text \<open>Size mismatch\<close>. On the layout \<open>A\<close> (host
  size 4, IO size 64) a call of \<^verbatim>\<open>toHost\<close> with 63 device bytes fails with a message that
  holds no digit at all, so neither 64 nor 63 is reported.
\<close>

theorem toHost_mismatch_reports_no_size:
  "toHost demo_runtime demo_layout_A 600 63 500 4 0 = (Inl (runtime_error ''Size mismatch''), 0, [])
   \<and> filter (\<lambda>c. c \<in> set ''0123456789'') ''Size mismatch'' = []"
  by (simp add: toHost_def throw_io_def demo_layout_A_def getHostSize_def getIoSize_def)

section \<open>The constructors build the declared tree\<close>

lemma dimensions_loop_Inr_iff:
  "dimensions_loop api l n k acc = Inr res \<longleftrightarrow>
     (\<forall>i. k \<le> i \<and> i < n \<longrightarrow> fst (groq_tensor_layout_get_nth_dimension api l i) = GROQ_SUCCESS) \<and>
     res = acc @ map (\<lambda>i. snd (groq_tensor_layout_get_nth_dimension api l i)) [k..<n]"
  by (rule loop_Inr_iff'[where body = "\<lambda>k. GROQOK ''groq_tensor_layout_get_nth_dimension(layout, nth, &dimension)''
                      (groq_tensor_layout_get_nth_dimension api l k)"])
     (simp_all add: dimensions_loop.simps[of api l n] GROQOK_eq_Inr')

lemma dimensions_loop_Inl:
  "dimensions_loop api l n k acc = Inl e \<Longrightarrow> \<exists>x c. e = GROQOK_error x c"
  by (drule loop_Inl[where loop = "dimensions_loop api l n" and n = n, rotated])
     (auto simp: dimensions_loop.simps[of api l n] GROQOK_eq_Inl, blast)

lemma all_upt: "list_all P [0..<n] \<longleftrightarrow> (\<forall>i. 0 \<le> i \<and> i < n \<longrightarrow> P i)"
  by (auto simp: list_all_iff)

lemma TensorLayout_new_Inr_iff:
  "TensorLayout_new api l nm sz = Inr L \<longleftrightarrow> layout_calls_ok api l \<and> L = declared_TensorLayout api l nm sz"
  by (auto simp: TensorLayout_new_def layout_calls_ok_def declared_TensorLayout_def ebind_eq_Inr
        GROQOK_eq_Inr' dimensions_loop_Inr_iff all_upt)

lemma TensorLayout_new_Inl:
  "TensorLayout_new api l nm sz = Inl e \<Longrightarrow> \<exists>x c. e = GROQOK_error x c"
  by (auto simp: TensorLayout_new_def ebind_eq_Inl GROQOK_eq_Inl dest: dimensions_loop_Inl)


lemma layouts_loop_Inr_iff:
  "layouts_loop api iod sz n k acc = Inr res \<longleftrightarrow>
     (\<forall>i. k \<le> i \<and> i < n \<longrightarrow>
        fst (groq_iodescriptor_get_nth_tensor_layout api iod i) = GROQ_SUCCESS \<and>
        fst (groq_tensor_layout_get_name api (snd (groq_iodescriptor_get_nth_tensor_layout api iod i))) = GROQ_SUCCESS \<and>
        layout_calls_ok api (snd (groq_iodescriptor_get_nth_tensor_layout api iod i))) \<and>
     res = acc @ map (declared_layout api iod sz) [k..<n]"
  by (rule loop_Inr_iff'[where body = "\<lambda>k.
        ebind (GROQOK ''groq_iodescriptor_get_nth_tensor_layout(iodescriptor, nth, &layout)''
                 (groq_iodescriptor_get_nth_tensor_layout api iod k)) (\<lambda>l.
        ebind (GROQOK ''groq_tensor_layout_get_name(layout, &name)''
                 (groq_tensor_layout_get_name api l)) (\<lambda>nm.
        TensorLayout_new api l nm sz))"])
     (auto simp: layouts_loop.simps[of api iod sz n] ebind_assoc ebind_eq_Inr GROQOK_eq_Inr'
        TensorLayout_new_Inr_iff declared_layout_def)

lemma layouts_loop_Inl:
  "layouts_loop api iod sz n k acc = Inl e \<Longrightarrow> \<exists>x c. e = GROQOK_error x c"
  by (drule loop_Inl[where loop = "layouts_loop api iod sz n" and n = n and body = "\<lambda>k.
        ebind (GROQOK ''groq_iodescriptor_get_nth_tensor_layout(iodescriptor, nth, &layout)''
                 (groq_iodescriptor_get_nth_tensor_layout api iod k)) (\<lambda>l.
        ebind (GROQOK ''groq_tensor_layout_get_name(layout, &name)''
                 (groq_tensor_layout_get_name api l)) (\<lambda>nm.
        TensorLayout_new api l nm sz))", rotated])
     (simp add: layouts_loop.simps[of api iod sz n] ebind_assoc,
      auto simp: ebind_eq_Inl GROQOK_eq_Inl dest: TensorLayout_new_Inl)

lemma IODescriptor_new_Inr_iff:
  "IODescriptor_new api iod sz = Inr d \<longleftrightarrow> descriptor_calls_ok api iod \<and> d = declared_IODescriptor api iod sz"
  by (auto simp: IODescriptor_new_def descriptor_calls_ok_def declared_IODescriptor_def ebind_eq_Inr
        GROQOK_eq_Inr' layouts_loop_Inr_iff all_upt)

lemma IODescriptor_new_Inl:
  "IODescriptor_new api iod sz = Inl e \<Longrightarrow> \<exists>x c. e = GROQOK_error x c"
  by (auto simp: IODescriptor_new_def ebind_eq_Inl GROQOK_eq_Inl dest: layouts_loop_Inl)

lemma EntryPoint_new_Inr_iff:
  "EntryPoint_new api entrypoint nm = Inr ep \<longleftrightarrow>
     entrypoint_calls_ok api entrypoint \<and> ep = declared_EntryPoint api entrypoint nm"
  by (auto simp: EntryPoint_new_def entrypoint_calls_ok_def declared_EntryPoint_def ebind_eq_Inr
        GROQOK_eq_Inr' IODescriptor_new_Inr_iff)

lemma EntryPoint_new_Inl:
  "EntryPoint_new api entrypoint nm = Inl e \<Longrightarrow> \<exists>x c. e = GROQOK_error x c"
  by (auto simp: EntryPoint_new_def ebind_eq_Inl GROQOK_eq_Inl dest: IODescriptor_new_Inl)

lemma entrypoints_loop_Inr_iff:
  "entrypoints_loop api program n k acc = Inr res \<longleftrightarrow>
     (\<forall>j. k \<le> j \<and> j < n \<longrightarrow>
        fst (groq_get_nth_entrypoint api program j) = GROQ_SUCCESS \<and>
        fst (groq_entrypoint_get_name api (snd (groq_get_nth_entrypoint api program j))) = GROQ_SUCCESS \<and>
        entrypoint_calls_ok api (snd (groq_get_nth_entrypoint api program j))) \<and>
     res = acc @ map (declared_entrypoint api program) [k..<n]"
  by (rule loop_Inr_iff'[where body = "\<lambda>k.
        ebind (GROQOK ''groq_get_nth_entrypoint(program, nth, &entrypoint)''
                 (groq_get_nth_entrypoint api program k)) (\<lambda>entrypoint.
        ebind (GROQOK ''groq_entrypoint_get_name(entrypoint, &name)''
                 (groq_entrypoint_get_name api entrypoint)) (\<lambda>nm.
        EntryPoint_new api entrypoint nm))"])
     (auto simp: entrypoints_loop.simps[of api program n] ebind_assoc ebind_eq_Inr GROQOK_eq_Inr'
        EntryPoint_new_Inr_iff declared_entrypoint_def)

lemma entrypoints_loop_Inl:
  "entrypoints_loop api program n k acc = Inl e \<Longrightarrow> \<exists>x c. e = GROQOK_error x c"
  by (drule loop_Inl[where loop = "entrypoints_loop api program n" and n = n and body = "\<lambda>k.
        ebind (GROQOK ''groq_get_nth_entrypoint(program, nth, &entrypoint)''
                 (groq_get_nth_entrypoint api program k)) (\<lambda>entrypoint.
        ebind (GROQOK ''groq_entrypoint_get_name(entrypoint, &name)''
                 (groq_entrypoint_get_name api entrypoint)) (\<lambda>nm.
        EntryPoint_new api entrypoint nm))", rotated])
     (simp add: entrypoints_loop.simps[of api program n] ebind_assoc,
      auto simp: ebind_eq_Inl GROQOK_eq_Inl dest: EntryPoint_new_Inl)

lemma Program_new_Inr_iff:
  "Program_new api program nm = Inr p \<longleftrightarrow> program_calls_ok api program \<and> p = declared_Program api program nm"
  by (auto simp: Program_new_def program_calls_ok_def declared_Program_def ebind_eq_Inr
        GROQOK_eq_Inr' entrypoints_loop_Inr_iff all_upt)

lemma Program_new_Inl:
  "Program_new api program nm = Inl e \<Longrightarrow> \<exists>x c. e = GROQOK_error x c"
  by (auto simp: Program_new_def ebind_eq_Inl GROQOK_eq_Inl dest: entrypoints_loop_Inl)

lemma programs_loop_Inr_iff:
  "programs_loop api h n k acc = Inr res \<longleftrightarrow>
     (\<forall>p. k \<le> p \<and> p < n \<longrightarrow>
        fst (groq_get_nth_program api h p) = GROQ_SUCCESS \<and>
        fst (groq_program_name api h p) = GROQ_SUCCESS \<and>
        program_calls_ok api (snd (groq_get_nth_program api h p))) \<and>
     res = acc @ map (declared_program api h) [k..<n]"
  by (rule loop_Inr_iff'[where body = "\<lambda>k.
        ebind (GROQOK ''groq_get_nth_program(iop, nth, &program)''
                 (groq_get_nth_program api h k)) (\<lambda>program.
        ebind (GROQOK ''groq_program_name(iop, nth, &name)''
                 (groq_program_name api h k)) (\<lambda>nm.
        Program_new api program nm))"])
     (auto simp: programs_loop.simps[of api h n] ebind_assoc ebind_eq_Inr GROQOK_eq_Inr'
        Program_new_Inr_iff declared_program_def)

lemma programs_loop_Inl:
  "programs_loop api h n k acc = Inl e \<Longrightarrow> \<exists>x c. e = GROQOK_error x c"
  by (drule loop_Inl[where loop = "programs_loop api h n" and n = n and body = "\<lambda>k.
        ebind (GROQOK ''groq_get_nth_program(iop, nth, &program)''
                 (groq_get_nth_program api h k)) (\<lambda>program.
        ebind (GROQOK ''groq_program_name(iop, nth, &name)''
                 (groq_program_name api h k)) (\<lambda>nm.
        Program_new api program nm))", rotated])
     (simp add: programs_loop.simps[of api h n] ebind_assoc,
      auto simp: ebind_eq_Inl GROQOK_eq_Inl dest: Program_new_Inl)

lemma IOP_new_Inr_iff:
  "IOP_new api bytes = Inr c \<longleftrightarrow> parse_calls_ok api bytes \<and> c = declared_IOP api bytes"
  by (auto simp: IOP_new_def initialize_def parse_calls_ok_def declared_IOP_def ebind_eq_Inr
        GROQOK_eq_Inr' programs_loop_Inr_iff all_upt)

lemma IOP_new_Inl:
  "IOP_new api bytes = Inl e \<Longrightarrow> \<exists>x c. e = GROQOK_error x c"
  by (auto simp: IOP_new_def initialize_def ebind_eq_Inl GROQOK_eq_Inl dest: programs_loop_Inl)

section \<open>The IO size of a tensor layout\<close>

lemma layouts_loop_iodSize:
  "layouts_loop api iod sz n k ls = Inr res \<Longrightarrow> \<forall>L \<in> set ls. iodSize L = sz
     \<Longrightarrow> \<forall>L \<in> set res. iodSize L = sz"
proof (induction api iod sz n k ls rule: layouts_loop.induct)
  case (1 api iod sz n k ls)
  show ?case
  proof (cases "k < n")
    case True
    from "1.prems"(1) True obtain l nm L where
      L: "TensorLayout_new api l nm sz = Inr L"
      and rest: "layouts_loop api iod sz n (Suc k) (ls @ [L]) = Inr res"
      by (subst (asm) layouts_loop.simps) (auto simp: ebind_eq_Inr)
    from L have "iodSize L = sz"
      by (auto simp: TensorLayout_new_def ebind_eq_Inr)
    with "1.prems"(2) have "\<forall>L' \<in> set (ls @ [L]). iodSize L' = sz" by simp
    from "1.IH"[OF True rest this] show ?thesis .
  next
    case False
    with "1.prems" show ?thesis
      by (subst (asm) layouts_loop.simps) simp
  qed
qed

text \<open>
  Claim C9. In an \<^verbatim>\<open>IODescriptor\<close> built by the parsing constructor, \<^verbatim>\<open>getIoSize()\<close> of
  every tensor layout is the descriptor's own \<^verbatim>\<open>getSize()\<close>, the aggregate device-side
  size the constructor was given: it is the size of the whole device buffer, the same for
  all tensors of the descriptor.
\<close>

theorem ioSize_is_descriptor_size:
  "IODescriptor_new api iodescriptor sz = Inr d \<Longrightarrow>
     getSize d = sz \<and> (\<forall>L \<in> set (getTensorLayouts d). getIoSize L = getSize d)"
  using layouts_loop_iodSize[of api iodescriptor sz _ 0 "[]"]
  by (auto simp: IODescriptor_new_def ebind_eq_Inr getSize_def getTensorLayouts_def getIoSize_def)

theorem ioSize_is_descriptor_size_witness:
  "IODescriptor_new demo_api 30 64 = Inr \<lparr>layouts = [demo_layout_A, demo_layout_B], size_IOD = 64\<rparr>
   \<and> getSize \<lparr>layouts = [demo_layout_A, demo_layout_B], size_IOD = 64\<rparr> = 64
   \<and> getIoSize demo_layout_A = 64 \<and> getIoSize demo_layout_B = 64"
  using ioSize_is_descriptor_size [OF IODescriptor_new_demo] IODescriptor_new_demo
  by (simp add: getTensorLayouts_def)

section \<open>Parse completeness\<close>

text \<open>
  Claim C6. When every native parse call succeeds and the container reports \<open>P\<close> programs,
  \<open>E\<close> entrypoints for each program and, for each entrypoint, \<open>Nin\<close> tensor layouts in
  the input descriptor and \<open>Nout\<close> in the output descriptor (the claim's \<open>N\<close> is the case
  \<open>Nin = Nout\<close>), construction succeeds and the tree has exactly \<open>P\<close> programs, \<open>E\<close>
  entrypoints in each and \<open>Nin\<close> and \<open>Nout\<close> tensor layouts, in declaration order: program
  \<open>p\<close> and entrypoint \<open>e\<close> carry the names the native calls give for index \<open>p\<close> and
  \<open>e\<close>, and element \<open>i\<close> of a descriptor's layout sequence is the layout declared at
  index \<open>i\<close>: its handle, name, host size, format and dimensions are those the native calls
  return for the \<open>i\<close>-th layout handle. The tree is a value; the binding calls of a runner
  return the runner with the same \<open>iop\<close> (lemma \<open>apply_bindings_fixed\<close> below).
\<close>

theorem parse_completeness:
  assumes ok: "parse_calls_ok api bytes"
    and P: "snd (groq_iop_get_number_of_programs api (snd (groq_iop_init api bytes))) = P"
    and E: "\<forall>p<P. snd (groq_get_number_of_entrypoints api (program_handle api bytes p)) = E"
    and N: "\<forall>p<P. \<forall>e<E.
       snd (groq_iodescriptor_get_number_of_tensor_layouts api (input_descriptor_handle api bytes p e)) = Nin \<and>
       snd (groq_iodescriptor_get_number_of_tensor_layouts api (output_descriptor_handle api bytes p e)) = Nout"
  shows "\<exists>c. IOP_new api bytes = Inr c \<and> numPrograms c = P \<and>
     (\<forall>p<P. numEntrypoints (getPrograms c ! p) = E \<and>
        name_P (getPrograms c ! p) = snd (groq_program_name api (snd (groq_iop_init api bytes)) p) \<and>
        (\<forall>e<E.
           name_EP (getEntrypoints (getPrograms c ! p) ! e) =
             snd (groq_entrypoint_get_name api (entrypoint_handle api bytes p e)) \<and>
           length (getTensorLayouts (getInputIODescriptor (getEntrypoints (getPrograms c ! p) ! e))) = Nin \<and>
           length (getTensorLayouts (getOutputIODescriptor (getEntrypoints (getPrograms c ! p) ! e))) = Nout \<and>
           (\<forall>i<Nin. getTensorLayouts (getInputIODescriptor (getEntrypoints (getPrograms c ! p) ! e)) ! i =
              declared_layout api (input_descriptor_handle api bytes p e)
                (snd (groq_entrypoint_get_input_size api (entrypoint_handle api bytes p e))) i) \<and>
           (\<forall>i<Nout. getTensorLayouts (getOutputIODescriptor (getEntrypoints (getPrograms c ! p) ! e)) ! i =
              declared_layout api (output_descriptor_handle api bytes p e)
                (snd (groq_entrypoint_get_output_size api (entrypoint_handle api bytes p e))) i)))"
proof -
  from ok have c: "IOP_new api bytes = Inr (declared_IOP api bytes)"
    by (simp add: IOP_new_Inr_iff)
  have progs: "getPrograms (declared_IOP api bytes) ! p =
      declared_Program api (program_handle api bytes p) (snd (groq_program_name api (snd (groq_iop_init api bytes)) p))"
    if "p < P" for p
    using that P by (simp add: getPrograms_def declared_IOP_def declared_program_def program_handle_def)
  have eps: "getEntrypoints (getPrograms (declared_IOP api bytes) ! p) ! e =
      declared_EntryPoint api (entrypoint_handle api bytes p e)
        (snd (groq_entrypoint_get_name api (entrypoint_handle api bytes p e)))"
    if "p < P" "e < E" for p e
    using that E
    by (simp add: progs getEntrypoints_def declared_Program_def declared_entrypoint_def entrypoint_handle_def)
  have "numPrograms (declared_IOP api bytes) = P"
    using P by (simp add: numPrograms_def declared_IOP_def)
  moreover have "numEntrypoints (getPrograms (declared_IOP api bytes) ! p) = E \<and>
      name_P (getPrograms (declared_IOP api bytes) ! p) = snd (groq_program_name api (snd (groq_iop_init api bytes)) p)"
    if "p < P" for p
    using that E by (simp add: progs numEntrypoints_def declared_Program_def)
  moreover have "name_EP (getEntrypoints (getPrograms (declared_IOP api bytes) ! p) ! e) =
             snd (groq_entrypoint_get_name api (entrypoint_handle api bytes p e)) \<and>
       length (getTensorLayouts (getInputIODescriptor (getEntrypoints (getPrograms (declared_IOP api bytes) ! p) ! e))) = Nin \<and>
       length (getTensorLayouts (getOutputIODescriptor (getEntrypoints (getPrograms (declared_IOP api bytes) ! p) ! e))) = Nout \<and>
       (\<forall>i<Nin. getTensorLayouts (getInputIODescriptor (getEntrypoints (getPrograms (declared_IOP api bytes) ! p) ! e)) ! i =
              declared_layout api (input_descriptor_handle api bytes p e)
                (snd (groq_entrypoint_get_input_size api (entrypoint_handle api bytes p e))) i) \<and>
       (\<forall>i<Nout. getTensorLayouts (getOutputIODescriptor (getEntrypoints (getPrograms (declared_IOP api bytes) ! p) ! e)) ! i =
              declared_layout api (output_descriptor_handle api bytes p e)
                (snd (groq_entrypoint_get_output_size api (entrypoint_handle api bytes p e))) i)"
    if "p < P" "e < E" for p e
    using that N
    by (simp add: eps declared_EntryPoint_def getInputIODescriptor_def getOutputIODescriptor_def
          getTensorLayouts_def declared_IODescriptor_def input_descriptor_handle_def
          output_descriptor_handle_def)
  ultimately show ?thesis
    using c by (intro exI[of _ "declared_IOP api bytes"]) simp
qed

theorem parse_completeness_witness:
  "parse_calls_ok demo_api [1, 2, 3] \<and> IOP_new demo_api [1, 2, 3] = Inr demo_iop \<and>
   numPrograms demo_iop = 1 \<and> numEntrypoints (getPrograms demo_iop ! 0) = 1 \<and>
   getTensorLayouts (getInputIODescriptor (getEntrypoints (getPrograms demo_iop ! 0) ! 0)) =
     [demo_layout_A, demo_layout_B] \<and>
   getTensorLayouts (getOutputIODescriptor (getEntrypoints (getPrograms demo_iop ! 0) ! 0)) = [demo_layout_C] \<and>
   declared_layout demo_api (input_descriptor_handle demo_api [1, 2, 3] 0 0) 64 1 = demo_layout_B"
proof -
  have P: "snd (groq_iop_get_number_of_programs demo_api (snd (groq_iop_init demo_api [1, 2, 3]))) = 1"
    by (simp add: demo_api_def)
  have E: "\<forall>p<1. snd (groq_get_number_of_entrypoints demo_api (program_handle demo_api [1, 2, 3] p)) = 1"
    by (simp add: demo_api_def)
  have N: "\<forall>p<1. \<forall>e<1.
       snd (groq_iodescriptor_get_number_of_tensor_layouts demo_api (input_descriptor_handle demo_api [1, 2, 3] p e)) = 2 \<and>
       snd (groq_iodescriptor_get_number_of_tensor_layouts demo_api (output_descriptor_handle demo_api [1, 2, 3] p e)) = 1"
    by (simp add: demo_api_def input_descriptor_handle_def output_descriptor_handle_def)
  have A: "declared_layout demo_api (input_descriptor_handle demo_api [1, 2, 3] 0 0) 64 1 = demo_layout_B"
    by code_simp
  show ?thesis
    using parse_completeness [OF parse_calls_ok_demo P E N] parse_calls_ok_demo IOP_new_demo A
    by (simp add: demo_iop_def numPrograms_def numEntrypoints_def getPrograms_def getEntrypoints_def
          getTensorLayouts_def getInputIODescriptor_def getOutputIODescriptor_def)
qed

section \<open>A failing parse call aborts construction\<close>

text \<open>
  Claim C7. If any native parse call that construction makes (root init, program, entrypoint,
  descriptor, layout or dimension enumeration, or one of the name, size and format queries
  between them) reports a status other than \<^verbatim>\<open>GROQ_SUCCESS\<close>, the constructor throws the
  \<^verbatim>\<open>GROQOK\<close> runtime error of a failed call, and the caller gets no \<^verbatim>\<open>IOP\<close> object,
  complete or partial.
\<close>

theorem parse_failure_aborts_construction:
  assumes "\<not> parse_calls_ok api bytes"
  shows "(\<exists>x c. IOP_new api bytes = Inl (GROQOK_error x c)) \<and> (\<forall>c. IOP_new api bytes \<noteq> Inr c)"
proof (cases "IOP_new api bytes")
  case (Inl e)
  with IOP_new_Inl[OF Inl] show ?thesis by auto
next
  case (Inr c)
  with assms show ?thesis by (simp add: IOP_new_Inr_iff)
qed

theorem parse_failure_aborts_construction_witness:
  "\<not> parse_calls_ok broken_api [1, 2, 3] \<and>
   IOP_new broken_api [1, 2, 3] = Inl (runtime_error ''Error 5: groq_tensor_layout_get_size(layout, &size)'')"
  using parse_failure_aborts_construction [OF parse_calls_not_ok_broken] parse_calls_not_ok_broken IOP_new_broken
  by simp

section \<open>The native calls of one \<^verbatim>\<open>invoke\<close>\<close>

lemma bind_io_cases:
  "bind_io m f w = (r, w', t) \<longleftrightarrow>
     (\<exists>e. m w = (Inl e, w', t) \<and> r = Inl e) \<or>
     (\<exists>a w1 t1 t2. m w = (Inr a, w1, t1) \<and> f a w1 = (r, w', t2) \<and> t = t1 @ t2)"
  by (cases "m w" rule: prod_cases3; cases "fst (m w)")
     (auto simp: bind_io_def split: prod.splits)

lemma lift_io_cases: "lift_io x w = (r, w', t) \<longleftrightarrow> x = r \<and> w' = w \<and> t = []"
  by (auto simp: lift_io_def)

lemma return_io_cases: "return_io a w = (r, w', t) \<longleftrightarrow> r = Inr a \<and> w' = w \<and> t = []"
  by (auto simp: return_io_def)


lemma assert_io_cases:
  "assert_io NDEBUG c w = (r, w', t) \<longleftrightarrow>
     w' = w \<and> t = [] \<and> (if NDEBUG \<or> c then r = Inr () else r = Inl assertion_abort)"
  by (auto simp: assert_io_def return_io_def throw_io_def)

lemma get_data_handle_cases:
  "GROQOK_io x (call_get_data_handle rt ioba n) w = (r, w', t) \<longleftrightarrow>
     (\<exists>st p. groq_get_data_handle rt ioba n w = ((st, p), w') \<and> t = [GetDataHandle ioba n st p] \<and>
        GROQOK x (st, p) = r)"
  by (auto simp: GROQOK_io_def call_get_data_handle_def split: prod.splits)

lemma fromHost_cases:
  "fromHost rt L inp inSize outp outSize w = (r, w', t) \<Longrightarrow>
     (t = [] \<and> w' = w \<and> (\<exists>msg. r = Inl (runtime_error msg)) \<and> (inSize \<noteq> getHostSize L \<or> outSize \<noteq> getIoSize L)) \<or>
     (\<exists>st. t = [FromHost (layout L) inp inSize outp outSize st] \<and> inSize = getHostSize L \<and> outSize = getIoSize L \<and>
        r = GROQOK ''groq_tensor_layout_from_host(layout, input, inputSize, output, outputSize)'' (st, ()))"
  by (auto simp: fromHost_def throw_io_def GROQOK_io_def call_from_host_def split: if_splits prod.splits)

lemma toHost_cases:
  "toHost rt L inp inSize outp outSize w = (r, w', t) \<Longrightarrow>
     (t = [] \<and> w' = w \<and> r = Inl (runtime_error ''Size mismatch'') \<and> (inSize \<noteq> getIoSize L \<or> outSize \<noteq> getHostSize L)) \<or>
     (\<exists>st. t = [ToHost (layout L) inp inSize outp outSize st] \<and> inSize = getIoSize L \<and> outSize = getHostSize L \<and>
        r = GROQOK ''groq_tensor_layout_to_host(layout, input, inputSize, output, outputSize)'' (st, ()))"
  by (auto simp: toHost_def throw_io_def GROQOK_io_def call_to_host_def split: if_splits prod.splits)

text \<open>
  What one pass of a loop can record: nothing, the data-handle call alone, or the data-handle
  call and the conversion.
\<close>

lemma input_body_trace:
  assumes "input_body NDEBUG rt s i w = (r, w', t)"
  shows "(\<exists>e. r = Inl e \<and> t = []) \<or>
         (\<exists>e st p. r = Inl e \<and> t = [GetDataHandle (inputIoba s) 0 st p]) \<or>
         (\<exists>p l inp inSize outp outSize st. t = [GetDataHandle (inputIoba s) 0 GROQ_SUCCESS p, FromHost l inp inSize outp outSize st] \<and>
            GROQOK ''groq_tensor_layout_from_host(layout, input, inputSize, output, outputSize)'' (st, ()) = r)"
  using assms
  apply (simp add: input_body_def bind_io_cases lift_io_cases assert_io_cases get_data_handle_cases)
  apply (elim disjE exE conjE)
  apply (auto simp: GROQOK_eq_Inr dest!: fromHost_cases split: if_splits)
  done


lemma output_body_trace:
  assumes "output_body NDEBUG rt s i w = (r, w', t)"
  shows "(\<exists>e. r = Inl e \<and> t = []) \<or>
         (\<exists>e st p. r = Inl e \<and> t = [GetDataHandle (outputIoba s) 0 st p]) \<or>
         (\<exists>p l inp inSize outp outSize st. t = [GetDataHandle (outputIoba s) 0 GROQ_SUCCESS p, ToHost l inp inSize outp outSize st] \<and>
            GROQOK ''groq_tensor_layout_to_host(layout, input, inputSize, output, outputSize)'' (st, ()) = r)"
  using assms
  apply (simp add: output_body_def bind_io_cases lift_io_cases assert_io_cases get_data_handle_cases)
  apply (elim disjE exE conjE)
  apply (auto simp: GROQOK_eq_Inr dest!: toHost_cases split: if_splits)
  done

lemma GROQOK_unit_eq_Inr: "GROQOK x (st, ()) = Inr u \<longleftrightarrow> st = GROQ_SUCCESS"
  by (cases st) simp_all

lemma input_loop_trace:
  "input_loop NDEBUG rt s i w = (r, w', t) \<Longrightarrow>
     list_all input_phase_event t \<and>
     (r = Inr () \<longrightarrow> list_all (\<lambda>e. status_of e = GROQ_SUCCESS) t \<and>
        length (filter is_FromHost t) = numInputs s - i)"
proof (induction NDEBUG rt s i arbitrary: w r w' t rule: input_loop.induct)
  case (1 NDEBUG rt s i)
  show ?case
  proof (cases "i < numInputs s")
    case False
    with "1.prems" show ?thesis
      by (subst (asm) input_loop.simps) (simp add: return_io_cases)
  next
    case True
    from "1.prems" True have
      "(\<exists>e. input_body NDEBUG rt s i w = (Inl e, w', t) \<and> r = Inl e) \<or>
       (\<exists>a w1 t1 t2. input_body NDEBUG rt s i w = (Inr a, w1, t1) \<and>
          input_loop NDEBUG rt s (Suc i) w1 = (r, w', t2) \<and> t = t1 @ t2)"
      by (subst (asm) input_loop.simps) (simp add: bind_io_cases)
    then show ?thesis
    proof (elim disjE exE conjE)
      fix e assume "input_body NDEBUG rt s i w = (Inl e, w', t)" "r = Inl e"
      then show ?thesis
        by (auto dest!: input_body_trace)
    next
      fix a w1 t1 t2
      assume b: "input_body NDEBUG rt s i w = (Inr a, w1, t1)"
        and l: "input_loop NDEBUG rt s (Suc i) w1 = (r, w', t2)" and t: "t = t1 @ t2"
      from input_body_trace[OF b] obtain p l' inp inSize outp outSize where
        t1: "t1 = [GetDataHandle (inputIoba s) 0 GROQ_SUCCESS p, FromHost l' inp inSize outp outSize GROQ_SUCCESS]"
        by (auto simp: GROQOK_unit_eq_Inr)
      from "1.IH"[OF True l] t t1 True show ?thesis
        by auto
    qed
  qed
qed

lemma output_loop_trace:
  "output_loop NDEBUG rt s i w = (r, w', t) \<Longrightarrow> list_all output_phase_event t"
proof (induction NDEBUG rt s i arbitrary: w r w' t rule: output_loop.induct)
  case (1 NDEBUG rt s i)
  show ?case
  proof (cases "i < numOutputs s")
    case False
    with "1.prems" show ?thesis
      by (subst (asm) output_loop.simps) (simp add: return_io_cases)
  next
    case True
    from "1.prems" True have
      "(\<exists>e. output_body NDEBUG rt s i w = (Inl e, w', t) \<and> r = Inl e) \<or>
       (\<exists>a w1 t1 t2. output_body NDEBUG rt s i w = (Inr a, w1, t1) \<and>
          output_loop NDEBUG rt s (Suc i) w1 = (r, w', t2) \<and> t = t1 @ t2)"
      by (subst (asm) output_loop.simps) (simp add: bind_io_cases)
    then show ?thesis
    proof (elim disjE exE conjE)
      fix e assume "output_body NDEBUG rt s i w = (Inl e, w', t)" "r = Inl e"
      then show ?thesis
        by (auto dest!: output_body_trace)
    next
      fix a w1 t1 t2
      assume b: "output_body NDEBUG rt s i w = (Inr a, w1, t1)"
        and l: "output_loop NDEBUG rt s (Suc i) w1 = (r, w', t2)" and t: "t = t1 @ t2"
      from output_body_trace[OF b] have "list_all output_phase_event t1"
        by auto
      with "1.IH"[OF True l] t show ?thesis
        by simp
    qed
  qed
qed

lemma map_filter_append: "List.map_filter f (xs @ ys) = List.map_filter f xs @ List.map_filter f ys"
  by (simp add: List.map_filter_def)

lemma input_body_conversions:
  assumes "input_body NDEBUG rt s i w = (r, w', t)"
    and "inputTensorLayouts (iop s) (programIndex s) (entrypointIndex s) = Inr ils"
  shows "(List.map_filter from_host_args t = [] \<and> (\<exists>e. r = Inl e)) \<or>
         List.map_filter from_host_args t = [input_conversion s ils i]"
  using assms
  apply (simp add: input_body_def bind_io_cases lift_io_cases assert_io_cases get_data_handle_cases
      at_eq_Inr)
  apply (elim disjE exE conjE)
  apply (auto simp: List.map_filter_def input_conversion_def GROQOK_eq_Inr dest!: fromHost_cases split: if_splits)
  done

lemma input_loop_conversions:
  "input_loop NDEBUG rt s i w = (r, w', t) \<Longrightarrow>
   inputTensorLayouts (iop s) (programIndex s) (entrypointIndex s) = Inr ils \<Longrightarrow>
     \<exists>k. i \<le> k \<and> (k \<le> numInputs s \<or> k = i) \<and>
       List.map_filter from_host_args t = map (input_conversion s ils) [i..<k] \<and>
       (r = Inr () \<longrightarrow> numInputs s \<le> k)"
proof (induction NDEBUG rt s i arbitrary: w r w' t rule: input_loop.induct)
  case (1 NDEBUG rt s i)
  show ?case
  proof (cases "i < numInputs s")
    case False
    with "1.prems"(1) have "t = []" "r = Inr ()"
      by (subst (asm) input_loop.simps, simp add: return_io_cases)+
    with False show ?thesis
      by (intro exI[of _ i]) (simp add: List.map_filter_def)
  next
    case True
    from "1.prems"(1) True have
      "(\<exists>e. input_body NDEBUG rt s i w = (Inl e, w', t) \<and> r = Inl e) \<or>
       (\<exists>a w1 t1 t2. input_body NDEBUG rt s i w = (Inr a, w1, t1) \<and>
          input_loop NDEBUG rt s (Suc i) w1 = (r, w', t2) \<and> t = t1 @ t2)"
      by (subst (asm) input_loop.simps) (simp add: bind_io_cases)
    then show ?thesis
    proof (elim disjE exE conjE)
      fix e assume b: "input_body NDEBUG rt s i w = (Inl e, w', t)" and r: "r = Inl e"
      from input_body_conversions[OF b "1.prems"(2)] have
        "List.map_filter from_host_args t = [] \<or> List.map_filter from_host_args t = [input_conversion s ils i]"
        by auto
      then show ?thesis
      proof
        assume "List.map_filter from_host_args t = []"
        with r show ?thesis by (intro exI[of _ i]) simp
      next
        assume "List.map_filter from_host_args t = [input_conversion s ils i]"
        with r True show ?thesis by (intro exI[of _ "Suc i"]) simp
      qed
    next
      fix a w1 t1 t2
      assume b: "input_body NDEBUG rt s i w = (Inr a, w1, t1)"
        and l: "input_loop NDEBUG rt s (Suc i) w1 = (r, w', t2)" and t: "t = t1 @ t2"
      from input_body_conversions[OF b "1.prems"(2)] have t1: "List.map_filter from_host_args t1 = [input_conversion s ils i]"
        by auto
      from "1.IH"[OF True l "1.prems"(2)] obtain k where
        k: "Suc i \<le> k" "k \<le> numInputs s \<or> k = Suc i"
          "List.map_filter from_host_args t2 = map (input_conversion s ils) [Suc i..<k]"
          "r = Inr () \<longrightarrow> numInputs s \<le> k"
        by blast
      with t t1 True show ?thesis
        by (intro exI[of _ k]) (auto simp: map_filter_append upt_conv_Cons)
    qed
  qed
qed


lemma execute_cases:
  assumes "execute rt s device w = (r, w', t)"
  shows "(\<exists>c completion. t = [Invoke device (inputIoba s) 0 (outputIoba s) 0 (GROQ_FAILURE c) completion] \<and>
            r = Inl (GROQOK_error ''groq_invoke(device.handle(), inputIoba, nthInput, outputIoba, nthOutput, &completion)'' c)) \<or>
         (\<exists>c completion. t = [Invoke device (inputIoba s) 0 (outputIoba s) 0 GROQ_SUCCESS completion,
                                WaitForCompletion completion 30000 (GROQ_FAILURE c)] \<and>
            r = Inl (GROQOK_error ''groq_wait_for_completion(completion, 30000)'' c)) \<or>
         (\<exists>completion. t = [Invoke device (inputIoba s) 0 (outputIoba s) 0 GROQ_SUCCESS completion,
                              WaitForCompletion completion 30000 GROQ_SUCCESS] \<and> r = Inr ())"
proof -
  obtain st completion w1 where i: "groq_invoke rt device (inputIoba s) 0 (outputIoba s) 0 w = ((st, completion), w1)"
    by (metis surj_pair)
  obtain st2 w2 where wt: "groq_wait_for_completion rt completion 30000 w1 = (st2, w2)"
    by (metis surj_pair)
  from assms i wt show ?thesis
    by (cases st; cases st2)
       (auto simp: execute_def bind_io_def GROQOK_io_def call_invoke_def call_wait_for_completion_def)
qed

lemma invoke_phases:
  assumes "invoke NDEBUG rt s device w = (r, w', t)"
  shows "\<exists>tin tex tout. t = tin @ tex @ tout \<and>
     list_all input_phase_event tin \<and> list_all output_phase_event tout \<and>
     (tin = [] \<or> tin = snd (snd (input_loop NDEBUG rt s 0 w))) \<and>
     ((tex = [] \<and> tout = [] \<and> (\<exists>e. r = Inl e) \<and>
        \<not> ((NDEBUG \<or> inputIoba s \<noteq> nullptr \<and> outputIoba s \<noteq> nullptr) \<and>
           fst (input_loop NDEBUG rt s 0 w) = Inr ())) \<or>
      ((NDEBUG \<or> inputIoba s \<noteq> nullptr \<and> outputIoba s \<noteq> nullptr) \<and>
       fst (input_loop NDEBUG rt s 0 w) = Inr () \<and>
       list_all (\<lambda>e. status_of e = GROQ_SUCCESS) tin \<and>
       length (filter is_FromHost tin) = numInputs s \<and>
       ((\<exists>c completion. tex = [Invoke device (inputIoba s) 0 (outputIoba s) 0 (GROQ_FAILURE c) completion] \<and>
            tout = [] \<and>
            r = Inl (GROQOK_error ''groq_invoke(device.handle(), inputIoba, nthInput, outputIoba, nthOutput, &completion)'' c)) \<or>
        (\<exists>c completion. tex = [Invoke device (inputIoba s) 0 (outputIoba s) 0 GROQ_SUCCESS completion,
                                WaitForCompletion completion 30000 (GROQ_FAILURE c)] \<and>
            tout = [] \<and> r = Inl (GROQOK_error ''groq_wait_for_completion(completion, 30000)'' c)) \<or>
        (\<exists>completion. tex = [Invoke device (inputIoba s) 0 (outputIoba s) 0 GROQ_SUCCESS completion,
                                WaitForCompletion completion 30000 GROQ_SUCCESS]))))"
proof (cases "NDEBUG \<or> inputIoba s \<noteq> nullptr \<and> outputIoba s \<noteq> nullptr")
  case False
  with assms have "t = [] \<and> (\<exists>e. r = Inl e)"
    by (auto simp: invoke_def bind_io_cases assert_io_cases split: if_splits)
  with False show ?thesis
    by (intro exI[of _ "[]"]) auto
next
  case asserts: True
  obtain r1 w1 tin where il: "input_loop NDEBUG rt s 0 w = (r1, w1, tin)"
    by (metis prod_cases3)
  note tr = input_loop_trace[OF il]
  show ?thesis
  proof (cases r1)
    case (Inl e)
    with assms asserts il have "t = tin \<and> r = Inl e"
      by (auto simp: invoke_def bind_io_cases assert_io_cases split: if_splits)
    with tr il Inl show ?thesis
      by (intro exI[of _ tin] exI[of _ "[]"]) auto
  next
    case (Inr u)
    with assms asserts il obtain w2 tex r2 where
      ex: "execute rt s device w1 = (r2, w2, tex)"
      and rest: "(\<exists>e. r2 = Inl e \<and> r = Inl e \<and> t = tin @ tex) \<or>
                 (\<exists>tout. r2 = Inr () \<and> output_loop NDEBUG rt s 0 w2 = (r, w', tout) \<and> t = tin @ tex @ tout)"
      by (auto simp: invoke_def bind_io_cases assert_io_cases split: if_splits)
    from rest show ?thesis
    proof (elim disjE exE conjE)
      fix e assume "r2 = Inl e" "r = Inl e" "t = tin @ tex"
      with execute_cases[OF ex] tr il Inr asserts show ?thesis
        by (intro exI[of _ tin] exI[of _ tex] exI[of _ "[]"]) auto
    next
      fix tout assume "r2 = Inr ()" and ol: "output_loop NDEBUG rt s 0 w2 = (r, w', tout)" and "t = tin @ tex @ tout"
      with execute_cases[OF ex] tr il Inr asserts output_loop_trace[OF ol] show ?thesis
        by (intro exI[of _ tin] exI[of _ tex] exI[of _ tout]) auto
    qed
  qed
qed

lemma phase_event_simps:
  "input_phase_event e \<Longrightarrow> \<not> is_Invoke e \<and> \<not> is_Wait e \<and> \<not> is_ToHost e"
  "output_phase_event e \<Longrightarrow> \<not> is_Invoke e \<and> \<not> is_Wait e \<and> \<not> is_FromHost e"
  by (cases e; simp)+

lemma filter_empty_phase:
  "list_all input_phase_event t \<Longrightarrow> filter is_Invoke t = [] \<and> filter is_Wait t = [] \<and> filter is_ToHost t = []"
  "list_all output_phase_event t \<Longrightarrow> filter is_Invoke t = [] \<and> filter is_Wait t = [] \<and> filter is_FromHost t = []"
  by (auto simp: list_all_iff filter_empty_conv dest: phase_event_simps)

text \<open>
  Claim C2. The native calls of one \<^verbatim>\<open>invoke\<close> come in three consecutive parts: calls of
  the input loop only (data handle, conversion from host), then the execute call and the
  wait for its completion, then calls of the output loop only (data handle, conversion to
  host). Where the execute call is issued, the input part holds exactly \<open>numInputs\<close>
  conversions, every call in it reported success, and the conversions are those of the
  tensors \<open>0\<close> to \<open>numInputs - 1\<close> in this order, each with the buffer and size bound at
  its index; where the output part is not empty, the
  middle part is the execute call followed by the wait on its completion handle, both
  reported successful. So every input conversion completes before the execute call, and no
  output conversion begins before the execute call has reported completion.
\<close>

theorem invoke_ordering:
  assumes "invoke NDEBUG rt s device w = (r, w', t)"
  shows "\<exists>tin tex tout. t = tin @ tex @ tout \<and>
     list_all input_phase_event tin \<and> list_all output_phase_event tout \<and>
     (tex = [] \<or>
      (\<exists>st completion. tex = [Invoke device (inputIoba s) 0 (outputIoba s) 0 st completion]) \<or>
      (\<exists>st completion. tex = [Invoke device (inputIoba s) 0 (outputIoba s) 0 GROQ_SUCCESS completion,
                              WaitForCompletion completion 30000 st])) \<and>
     (tex \<noteq> [] \<longrightarrow> length (filter is_FromHost tin) = numInputs s \<and>
                   list_all (\<lambda>e. status_of e = GROQ_SUCCESS) tin \<and>
                   (\<forall>ils. inputTensorLayouts (iop s) (programIndex s) (entrypointIndex s) = Inr ils \<longrightarrow>
                      List.map_filter from_host_args tin = map (input_conversion s ils) [0..<numInputs s])) \<and>
     (tout \<noteq> [] \<longrightarrow> (\<exists>completion. tex = [Invoke device (inputIoba s) 0 (outputIoba s) 0 GROQ_SUCCESS completion,
                                           WaitForCompletion completion 30000 GROQ_SUCCESS]))"
proof -
  define ok where "ok \<longleftrightarrow> fst (input_loop NDEBUG rt s 0 w) = Inr ()"
  from invoke_phases[OF assms] obtain tin tex tout where
    t: "t = tin @ tex @ tout" "list_all input_phase_event tin" "list_all output_phase_event tout"
    and tin: "tin = [] \<or> tin = snd (snd (input_loop NDEBUG rt s 0 w))"
    and c: "(tex = [] \<and> tout = []) \<or>
      (ok \<and> list_all (\<lambda>e. status_of e = GROQ_SUCCESS) tin \<and> length (filter is_FromHost tin) = numInputs s \<and>
       ((\<exists>c completion. tex = [Invoke device (inputIoba s) 0 (outputIoba s) 0 (GROQ_FAILURE c) completion] \<and> tout = []) \<or>
        (\<exists>c completion. tex = [Invoke device (inputIoba s) 0 (outputIoba s) 0 GROQ_SUCCESS completion,
                                WaitForCompletion completion 30000 (GROQ_FAILURE c)] \<and> tout = []) \<or>
        (\<exists>completion. tex = [Invoke device (inputIoba s) 0 (outputIoba s) 0 GROQ_SUCCESS completion,
                                WaitForCompletion completion 30000 GROQ_SUCCESS])))"
    unfolding ok_def by blast
  have conv: "List.map_filter from_host_args tin = map (input_conversion s ils) [0..<numInputs s]"
    if "ok" and n: "length (filter is_FromHost tin) = numInputs s"
      and ils: "inputTensorLayouts (iop s) (programIndex s) (entrypointIndex s) = Inr ils" for ils
  proof -
    obtain r1 w1 t1 where il: "input_loop NDEBUG rt s 0 w = (r1, w1, t1)"
      by (metis prod_cases3)
    with \<open>ok\<close> have r1: "r1 = Inr ()" by (simp add: ok_def)
    from input_loop_conversions[OF il ils] r1 have
      t1: "List.map_filter from_host_args t1 = map (input_conversion s ils) [0..<numInputs s]"
      by auto
    from tin show ?thesis
    proof
      assume "tin = []"
      with n show ?thesis by (simp add: List.map_filter_def)
    next
      assume "tin = snd (snd (input_loop NDEBUG rt s 0 w))"
      with il t1 show ?thesis by simp
    qed
  qed
  from c show ?thesis
  proof
    assume "tex = [] \<and> tout = []"
    with t show ?thesis
      by (intro exI[of _ tin] exI[of _ tex] exI[of _ tout]) simp
  next
    assume a: "ok \<and> list_all (\<lambda>e. status_of e = GROQ_SUCCESS) tin \<and> length (filter is_FromHost tin) = numInputs s \<and>
       ((\<exists>c completion. tex = [Invoke device (inputIoba s) 0 (outputIoba s) 0 (GROQ_FAILURE c) completion] \<and> tout = []) \<or>
        (\<exists>c completion. tex = [Invoke device (inputIoba s) 0 (outputIoba s) 0 GROQ_SUCCESS completion,
                                WaitForCompletion completion 30000 (GROQ_FAILURE c)] \<and> tout = []) \<or>
        (\<exists>completion. tex = [Invoke device (inputIoba s) 0 (outputIoba s) 0 GROQ_SUCCESS completion,
                                WaitForCompletion completion 30000 GROQ_SUCCESS]))"
    then have cv: "\<forall>ils. inputTensorLayouts (iop s) (programIndex s) (entrypointIndex s) = Inr ils \<longrightarrow>
                      List.map_filter from_host_args tin = map (input_conversion s ils) [0..<numInputs s]"
      using conv by blast
    from a t cv show ?thesis
      by (intro exI[of _ tin] exI[of _ tex] exI[of _ tout]) (elim disjE conjE exE; simp)
  qed
qed

theorem invoke_ordering_witness:
  "invoke False demo_runtime demo_bound 9 2 = (Inr (), 10, demo_trace) \<and>
   (\<exists>tin tex tout. demo_trace = tin @ tex @ tout \<and>
     list_all input_phase_event tin \<and> list_all output_phase_event tout \<and>
     (tex = [] \<or>
      (\<exists>st completion. tex = [Invoke 9 (inputIoba demo_bound) 0 (outputIoba demo_bound) 0 st completion]) \<or>
      (\<exists>st completion. tex = [Invoke 9 (inputIoba demo_bound) 0 (outputIoba demo_bound) 0 GROQ_SUCCESS completion,
                              WaitForCompletion completion 30000 st])) \<and>
     (tex \<noteq> [] \<longrightarrow> length (filter is_FromHost tin) = numInputs demo_bound \<and>
                   list_all (\<lambda>e. status_of e = GROQ_SUCCESS) tin \<and>
                   (\<forall>ils. inputTensorLayouts (iop demo_bound) (programIndex demo_bound) (entrypointIndex demo_bound) = Inr ils \<longrightarrow>
                      List.map_filter from_host_args tin = map (input_conversion demo_bound ils) [0..<numInputs demo_bound])) \<and>
     (tout \<noteq> [] \<longrightarrow> (\<exists>completion. tex = [Invoke 9 (inputIoba demo_bound) 0 (outputIoba demo_bound) 0 GROQ_SUCCESS completion,
                                           WaitForCompletion completion 30000 GROQ_SUCCESS])))"
  by (rule conjI [OF invoke_demo_bound invoke_ordering [OF invoke_demo_bound]])

section \<open>The execute call and its timeout\<close>

text \<open>
  An \<^verbatim>\<open>invoke\<close> that fails in its input loop issues no execute call at all: here the
  data handle of the input buffer array cannot be obtained.
\<close>

theorem invoke_execute_count_counterexample:
  "SimpleRunner_new False demo_api failing_runtime 5 demo_iop 0 0 0 =
     (Inr demo_runner, 2, [AllocateInputs 5 1 1 GROQ_SUCCESS 100, AllocateOutputs 5 1 1 GROQ_SUCCESS 101]) \<and>
   apply_bindings False [AddInputBuffer 501 8 1, AddInputBuffer 500 4 0, AddOutputBuffer 502 16 0] demo_runner =
     (Inr (), demo_bound) \<and>
   invoke False failing_runtime demo_bound 9 2 =
     (Inl (runtime_error ''Error 2: groq_get_data_handle(inputIoba, 0, &output)''), 3,
      [GetDataHandle 100 0 (GROQ_FAILURE 2) 0]) \<and>
   length (filter is_Invoke [GetDataHandle 100 0 (GROQ_FAILURE 2) 0]) = 0"
  using SimpleRunner_new_failing apply_bindings_demo invoke_failing_runtime by simp

text \<open>
  Claim C10, as the code has it. An \<^verbatim>\<open>invoke\<close> issues one execute call when its entry
  assertions pass and its input loop completes, and none otherwise. A successful execute
  call is followed by exactly one wait; every wait has the timeout 30000, which no argument
  of \<^verbatim>\<open>invoke\<close> influences, and follows a successful execute call. A status other than
  \<^verbatim>\<open>GROQ_SUCCESS\<close> from the execute call or from the wait makes \<^verbatim>\<open>invoke\<close> throw the
  \<^verbatim>\<open>GROQOK\<close> error: that call is the last native call and no output conversion is made.
\<close>

theorem invoke_execute_at_most_once:
  assumes "invoke NDEBUG rt s device w = (r, w', t)"
  shows "length (filter is_Invoke t) =
           (if (NDEBUG \<or> inputIoba s \<noteq> nullptr \<and> outputIoba s \<noteq> nullptr) \<and>
               fst (input_loop NDEBUG rt s 0 w) = Inr () then 1 else 0)
     \<and> (\<forall>e \<in> set t. is_Invoke e \<and> status_of e = GROQ_SUCCESS \<longrightarrow> length (filter is_Wait t) = 1)
     \<and> (\<forall>completion timeout st. WaitForCompletion completion timeout st \<in> set t \<longrightarrow> timeout = 30000)
     \<and> (\<forall>e \<in> set t. is_Wait e \<longrightarrow> (\<exists>e' \<in> set t. is_Invoke e' \<and> status_of e' = GROQ_SUCCESS))
     \<and> (\<forall>e \<in> set t. (is_Invoke e \<or> is_Wait e) \<and> status_of e \<noteq> GROQ_SUCCESS \<longrightarrow>
           (\<exists>x c. r = Inl (GROQOK_error x c)) \<and> filter is_ToHost t = [] \<and> last t = e)"
proof -
  define ok where "ok \<longleftrightarrow> (NDEBUG \<or> inputIoba s \<noteq> nullptr \<and> outputIoba s \<noteq> nullptr) \<and>
    fst (input_loop NDEBUG rt s 0 w) = Inr ()"
  from invoke_phases[OF assms] obtain tin tex tout where
    t: "t = tin @ tex @ tout" and tin: "list_all input_phase_event tin" and tout: "list_all output_phase_event tout"
    and c: "(tex = [] \<and> tout = [] \<and> \<not> ok) \<or>
      (ok \<and>
       ((\<exists>c completion. tex = [Invoke device (inputIoba s) 0 (outputIoba s) 0 (GROQ_FAILURE c) completion] \<and>
            tout = [] \<and>
            r = Inl (GROQOK_error ''groq_invoke(device.handle(), inputIoba, nthInput, outputIoba, nthOutput, &completion)'' c)) \<or>
        (\<exists>c completion. tex = [Invoke device (inputIoba s) 0 (outputIoba s) 0 GROQ_SUCCESS completion,
                                WaitForCompletion completion 30000 (GROQ_FAILURE c)] \<and>
            tout = [] \<and> r = Inl (GROQOK_error ''groq_wait_for_completion(completion, 30000)'' c)) \<or>
        (\<exists>completion. tex = [Invoke device (inputIoba s) 0 (outputIoba s) 0 GROQ_SUCCESS completion,
                                WaitForCompletion completion 30000 GROQ_SUCCESS])))"
    unfolding ok_def by blast
  note fi = filter_empty_phase(1)[OF tin] and fo = filter_empty_phase(2)[OF tout]
  have ni: "\<not> is_Invoke e \<and> \<not> is_Wait e \<and> \<not> is_ToHost e" if "e \<in> set tin" for e
    using tin that by (auto simp: list_all_iff dest: phase_event_simps)
  have no: "\<not> is_Invoke e \<and> \<not> is_Wait e" if "e \<in> set tout" for e
    using tout that by (auto simp: list_all_iff dest: phase_event_simps)
  have nwi: "WaitForCompletion a b st \<notin> set tin" for a b st
    using ni[of "WaitForCompletion a b st"] by auto
  have nwo: "WaitForCompletion a b st \<notin> set tout" for a b st
    using no[of "WaitForCompletion a b st"] by auto
  from c have "length (filter is_Invoke t) = (if ok then 1 else 0)
     \<and> (\<forall>e \<in> set t. is_Invoke e \<and> status_of e = GROQ_SUCCESS \<longrightarrow> length (filter is_Wait t) = 1)
     \<and> (\<forall>completion timeout st. WaitForCompletion completion timeout st \<in> set t \<longrightarrow> timeout = 30000)
     \<and> (\<forall>e \<in> set t. is_Wait e \<longrightarrow> (\<exists>e' \<in> set t. is_Invoke e' \<and> status_of e' = GROQ_SUCCESS))
     \<and> (\<forall>e \<in> set t. (is_Invoke e \<or> is_Wait e) \<and> status_of e \<noteq> GROQ_SUCCESS \<longrightarrow>
           (\<exists>x c. r = Inl (GROQOK_error x c)) \<and> filter is_ToHost t = [] \<and> last t = e)"
  proof (elim disjE conjE exE)
    assume "tex = []" "tout = []" "\<not> ok"
    with t fi ni nwi show ?thesis by auto
  next
    fix c completion
    assume "ok"
      "tex = [Invoke device (inputIoba s) 0 (outputIoba s) 0 (GROQ_FAILURE c) completion]" "tout = []"
      "r = Inl (GROQOK_error ''groq_invoke(device.handle(), inputIoba, nthInput, outputIoba, nthOutput, &completion)'' c)"
    with t fi ni nwi show ?thesis by auto
  next
    fix c completion
    assume "ok"
      "tex = [Invoke device (inputIoba s) 0 (outputIoba s) 0 GROQ_SUCCESS completion,
              WaitForCompletion completion 30000 (GROQ_FAILURE c)]" "tout = []"
      "r = Inl (GROQOK_error ''groq_wait_for_completion(completion, 30000)'' c)"
    with t fi ni nwi show ?thesis by auto
  next
    fix completion
    assume "ok"
      "tex = [Invoke device (inputIoba s) 0 (outputIoba s) 0 GROQ_SUCCESS completion,
              WaitForCompletion completion 30000 GROQ_SUCCESS]"
    with t fi fo ni no nwi nwo show ?thesis by auto
  qed
  then show ?thesis
    unfolding ok_def .
qed

theorem invoke_execute_at_most_once_witness:
  "invoke False demo_runtime demo_bound 9 2 = (Inr (), 10, demo_trace) \<and>
   length (filter is_Invoke demo_trace) = 1 \<and> length (filter is_Wait demo_trace) = 1 \<and>
   WaitForCompletion 7 30000 GROQ_SUCCESS \<in> set demo_trace \<and>
   fst (input_loop False demo_runtime demo_bound 0 2) = Inr ()"
  using invoke_execute_at_most_once [OF invoke_demo_bound] invoke_demo_bound
  by (auto simp: demo_trace_def split: if_splits)

section \<open>Runners keep their shape\<close>

lemma GROQOK_io_cases:
  "GROQOK_io x call w = (r, w', t) \<longleftrightarrow> (\<exists>st v. call w = ((st, v), w', t) \<and> GROQOK x (st, v) = r)"
  by (auto simp: GROQOK_io_def split: prod.splits)

lemma SimpleRunner_new_Inr:
  assumes "SimpleRunner_new NDEBUG api rt driver c pIndex eIndex w0 = (Inr s0, w1, t0)"
  shows "\<exists>ils ols. inputTensorLayouts c pIndex eIndex = Inr ils \<and> outputTensorLayouts c pIndex eIndex = Inr ols \<and>
     iop s0 = c \<and> programIndex s0 = pIndex \<and> entrypointIndex s0 = eIndex \<and>
     numInputs s0 = length ils \<and> numOutputs s0 = length ols \<and>
     inputBuffers s0 = replicate (length ils) nullptr \<and> inputSizes s0 = replicate (length ils) 0 \<and>
     outputBuffers s0 = replicate (length ols) nullptr \<and> outputSizes s0 = replicate (length ols) 0 \<and>
     (NDEBUG \<or> inputIoba s0 \<noteq> nullptr \<and> outputIoba s0 \<noteq> nullptr)"
  using assms
  by (auto simp: SimpleRunner_new_def bind_io_cases lift_io_cases assert_io_cases return_io_cases
        GROQOK_io_cases split: if_splits)

lemma SimpleRunner_new_inv:
  "SimpleRunner_new NDEBUG api rt driver c pIndex eIndex w0 = (Inr s0, w1, t0) \<Longrightarrow> runner_inv s0"
  by (drule SimpleRunner_new_Inr) (auto simp: runner_inv_def)

lemma addInputBuffer_frame:
  "addInputBuffer NDEBUG buffer sz index s = (r, s1) \<Longrightarrow>
     iop s1 = iop s \<and> programIndex s1 = programIndex s \<and> entrypointIndex s1 = entrypointIndex s \<and>
     numInputs s1 = numInputs s \<and> numOutputs s1 = numOutputs s \<and>
     inputIoba s1 = inputIoba s \<and> outputIoba s1 = outputIoba s \<and>
     tspInputSize s1 = tspInputSize s \<and> tspOutputSize s1 = tspOutputSize s \<and>
     outputBuffers s1 = outputBuffers s \<and> outputSizes s1 = outputSizes s \<and>
     length (inputBuffers s1) = length (inputBuffers s) \<and> length (inputSizes s1) = length (inputSizes s) \<and>
     (\<forall>i. i \<noteq> index \<longrightarrow> inputBuffers s1 ! i = inputBuffers s ! i \<and> inputSizes s1 ! i = inputSizes s ! i)"
  by (auto simp: addInputBuffer_def at_assign_def split: sum.splits if_splits)

lemma addOutputBuffer_frame:
  "addOutputBuffer NDEBUG buffer sz index s = (r, s1) \<Longrightarrow>
     iop s1 = iop s \<and> programIndex s1 = programIndex s \<and> entrypointIndex s1 = entrypointIndex s \<and>
     numInputs s1 = numInputs s \<and> numOutputs s1 = numOutputs s \<and>
     inputIoba s1 = inputIoba s \<and> outputIoba s1 = outputIoba s \<and>
     tspInputSize s1 = tspInputSize s \<and> tspOutputSize s1 = tspOutputSize s \<and>
     inputBuffers s1 = inputBuffers s \<and> inputSizes s1 = inputSizes s \<and>
     length (outputBuffers s1) = length (outputBuffers s) \<and> length (outputSizes s1) = length (outputSizes s) \<and>
     (\<forall>i. i \<noteq> index \<longrightarrow> outputBuffers s1 ! i = outputBuffers s ! i \<and> outputSizes s1 ! i = outputSizes s ! i)"
  by (auto simp: addOutputBuffer_def at_assign_def split: sum.splits if_splits)

lemma apply_binding_inv:
  "apply_binding NDEBUG b s = (r, s1) \<Longrightarrow> runner_inv s \<Longrightarrow> runner_inv s1"
  by (cases b) (auto simp: runner_inv_def split: sum.splits dest!: addInputBuffer_frame addOutputBuffer_frame)

lemma apply_binding_fixed:
  "apply_binding NDEBUG b s = (r, s1) \<Longrightarrow>
     iop s1 = iop s \<and> programIndex s1 = programIndex s \<and> entrypointIndex s1 = entrypointIndex s \<and>
     numInputs s1 = numInputs s \<and> numOutputs s1 = numOutputs s"
  by (cases b) (auto dest!: addInputBuffer_frame addOutputBuffer_frame)


lemma apply_bindings_inv:
  "apply_bindings NDEBUG bs s = (r, s1) \<Longrightarrow> runner_inv s \<Longrightarrow> runner_inv s1"
proof (induction bs arbitrary: s)
  case Nil
  then show ?case by simp
next
  case (Cons b bs)
  obtain r2 s2 where b: "apply_binding NDEBUG b s = (r2, s2)" by (metis surj_pair)
  with Cons.prems have "runner_inv s2" by (auto dest: apply_binding_inv)
  with Cons.prems b Cons.IH[of s2] show ?case
    by (cases r2) auto
qed

lemma apply_bindings_fixed:
  "apply_bindings NDEBUG bs s = (r, s1) \<Longrightarrow>
     iop s1 = iop s \<and> programIndex s1 = programIndex s \<and> entrypointIndex s1 = entrypointIndex s \<and>
     numInputs s1 = numInputs s \<and> numOutputs s1 = numOutputs s"
proof (induction bs arbitrary: s)
  case Nil
  then show ?case by simp
next
  case (Cons b bs)
  obtain r2 s2 where b: "apply_binding NDEBUG b s = (r2, s2)" by (metis surj_pair)
  from apply_binding_fixed[OF b] Cons.prems b Cons.IH[of s2] show ?case
    by (cases r2) auto
qed


lemma ebind_at_eq_Inr:
  "ebind (Inr ls) (\<lambda>ls. at ls i) = Inr L \<longleftrightarrow> i < length ls \<and> L = ls ! i"
  by (auto simp: at_eq_Inr)

lemma addInputBuffer_result:
  assumes "runner_inv s" and "inputTensorLayouts (iop s) (programIndex s) (entrypointIndex s) = Inr ils"
  shows "addInputBuffer NDEBUG buffer sz i s =
     (if \<not> i < length ils then (Inl out_of_range, s)
      else if sz \<noteq> getHostSize (ils ! i) then
        (Inl (runtime_error (''Bad data size; expected '' @ to_string (getHostSize (ils ! i)) @ '' got ''
                             @ to_string sz)), s)
      else if \<not> NDEBUG \<and> buffer = nullptr then (Inl assertion_abort, s)
      else (Inr (), s\<lparr>inputBuffers := (inputBuffers s)[i := buffer], inputSizes := (inputSizes s)[i := sz]\<rparr>))"
  using assms
  by (auto simp: addInputBuffer_def runner_inv_def at_def at_assign_def split: sum.splits)

lemma addOutputBuffer_result:
  assumes "runner_inv s" and "outputTensorLayouts (iop s) (programIndex s) (entrypointIndex s) = Inr ols"
  shows "addOutputBuffer NDEBUG buffer sz i s =
     (if \<not> i < length ols then (Inl out_of_range, s)
      else if sz \<noteq> getHostSize (ols ! i) then
        (Inl (runtime_error (''Bad data size; expected '' @ to_string (getHostSize (ols ! i)) @ '' got ''
                             @ to_string sz)), s)
      else if \<not> NDEBUG \<and> buffer = nullptr then (Inl assertion_abort, s)
      else (Inr (), s\<lparr>outputBuffers := (outputBuffers s)[i := buffer], outputSizes := (outputSizes s)[i := sz]\<rparr>))"
  using assms
  by (auto simp: addOutputBuffer_def runner_inv_def at_def at_assign_def split: sum.splits)

lemma bound_runner:
  assumes new: "SimpleRunner_new NDEBUG api rt driver c pIndex eIndex w0 = (Inr s0, w1, t0)"
    and binds: "apply_bindings NDEBUG bs s0 = (r0, s)"
  shows "\<exists>ils ols. inputTensorLayouts c pIndex eIndex = Inr ils \<and> outputTensorLayouts c pIndex eIndex = Inr ols \<and>
     runner_inv s \<and> iop s = c \<and> programIndex s = pIndex \<and> entrypointIndex s = eIndex \<and>
     numInputs s = length ils \<and> numOutputs s = length ols"
  using SimpleRunner_new_Inr[OF new] apply_bindings_fixed[OF binds]
    apply_bindings_inv[OF binds SimpleRunner_new_inv[OF new]]
  by auto

section \<open>The contract of the binding calls\<close>

text \<open>
  With assertions enabled, a null buffer makes a binding call abort at \<^verbatim>\<open>assert(buffer)\<close>
  although the index is in range and the size is the host size of the tensor.
\<close>

theorem bind_null_buffer_counterexample:
  "SimpleRunner_new False demo_api demo_runtime 5 demo_iop 0 0 0 =
     (Inr demo_runner, 2, [AllocateInputs 5 1 1 GROQ_SUCCESS 100, AllocateOutputs 5 1 1 GROQ_SUCCESS 101]) \<and>
   inputTensorLayouts demo_iop 0 0 = Inr [demo_layout_A, demo_layout_B] \<and>
   getHostSize demo_layout_A = 4 \<and>
   addInputBuffer False nullptr 4 0 demo_runner = (Inl assertion_abort, demo_runner)"
  using SimpleRunner_new_demo inputTensorLayouts_demo addInputBuffer_null_demo
  by (simp add: getHostSize_def demo_layout_A_def)

text \<open>
  Claim C5, as the code has it. On a runner made by the constructor and any series of
  successful binding calls, \<^verbatim>\<open>addInputBuffer(buffer, size, i)\<close> and
  \<^verbatim>\<open>addOutputBuffer(buffer, size, i)\<close> throw \<^verbatim>\<open>std::out_of_range\<close> when \<open>i\<close> is not below
  the tensor count of the input, respectively output, descriptor; throw the
  \<open>Bad data size\<close> runtime error, naming expected and actual size, when \<open>i\<close> is in range and
  \<open>size\<close> differs from the host size of tensor \<open>i\<close>; abort when index and size are right,
  assertions are enabled and the buffer is null; and otherwise succeed and store exactly
  \<open>buffer\<close> and \<open>size\<close> at index \<open>i\<close>. In every failing case the runner is unchanged.
\<close>

theorem bind_contract:
  assumes new: "SimpleRunner_new NDEBUG api rt driver c pIndex eIndex w0 = (Inr s0, w1, t0)"
    and binds: "apply_bindings NDEBUG bs s0 = (Inr (), s)"
  shows "\<exists>ils ols. inputTensorLayouts c pIndex eIndex = Inr ils \<and> outputTensorLayouts c pIndex eIndex = Inr ols \<and>
     (length ils \<le> i \<longrightarrow> addInputBuffer NDEBUG buffer sz i s = (Inl out_of_range, s)) \<and>
     (i < length ils \<and> sz \<noteq> getHostSize (ils ! i) \<longrightarrow>
        addInputBuffer NDEBUG buffer sz i s =
          (Inl (runtime_error (''Bad data size; expected '' @ to_string (getHostSize (ils ! i)) @ '' got ''
                               @ to_string sz)), s)) \<and>
     (i < length ils \<and> sz = getHostSize (ils ! i) \<and> \<not> NDEBUG \<and> buffer = nullptr \<longrightarrow>
        addInputBuffer NDEBUG buffer sz i s = (Inl assertion_abort, s)) \<and>
     (i < length ils \<and> sz = getHostSize (ils ! i) \<and> (NDEBUG \<or> buffer \<noteq> nullptr) \<longrightarrow>
        addInputBuffer NDEBUG buffer sz i s =
          (Inr (), s\<lparr>inputBuffers := (inputBuffers s)[i := buffer], inputSizes := (inputSizes s)[i := sz]\<rparr>)) \<and>
     (length ols \<le> i \<longrightarrow> addOutputBuffer NDEBUG buffer sz i s = (Inl out_of_range, s)) \<and>
     (i < length ols \<and> sz \<noteq> getHostSize (ols ! i) \<longrightarrow>
        addOutputBuffer NDEBUG buffer sz i s =
          (Inl (runtime_error (''Bad data size; expected '' @ to_string (getHostSize (ols ! i)) @ '' got ''
                               @ to_string sz)), s)) \<and>
     (i < length ols \<and> sz = getHostSize (ols ! i) \<and> \<not> NDEBUG \<and> buffer = nullptr \<longrightarrow>
        addOutputBuffer NDEBUG buffer sz i s = (Inl assertion_abort, s)) \<and>
     (i < length ols \<and> sz = getHostSize (ols ! i) \<and> (NDEBUG \<or> buffer \<noteq> nullptr) \<longrightarrow>
        addOutputBuffer NDEBUG buffer sz i s =
          (Inr (), s\<lparr>outputBuffers := (outputBuffers s)[i := buffer], outputSizes := (outputSizes s)[i := sz]\<rparr>))"
proof -
  from bound_runner[OF new binds] obtain ils ols where
    ils: "inputTensorLayouts c pIndex eIndex = Inr ils" and ols: "outputTensorLayouts c pIndex eIndex = Inr ols"
    and inv: "runner_inv s" and fixed: "iop s = c" "programIndex s = pIndex" "entrypointIndex s = eIndex"
    by blast
  from ils ols fixed have
    ils': "inputTensorLayouts (iop s) (programIndex s) (entrypointIndex s) = Inr ils" and
    ols': "outputTensorLayouts (iop s) (programIndex s) (entrypointIndex s) = Inr ols"
    by simp_all
  show ?thesis
    using ils ols
    by (simp add: addInputBuffer_result[OF inv ils'] addOutputBuffer_result[OF inv ols'])
qed

theorem bind_contract_witness:
  "addInputBuffer False 500 4 2 demo_runner = (Inl out_of_range, demo_runner) \<and>
   addInputBuffer False 500 3 0 demo_runner =
     (Inl (runtime_error ''Bad data size; expected 4 got 3''), demo_runner) \<and>
   addInputBuffer False 500 4 0 demo_runner =
     (Inr (), demo_runner\<lparr>inputBuffers := [500, nullptr], inputSizes := [4, 0]\<rparr>) \<and>
   addOutputBuffer False 502 16 1 demo_runner = (Inl out_of_range, demo_runner) \<and>
   addOutputBuffer False 502 3 0 demo_runner =
     (Inl (runtime_error ''Bad data size; expected 16 got 3''), demo_runner) \<and>
   addOutputBuffer False 502 16 0 demo_runner =
     (Inr (), demo_runner\<lparr>outputBuffers := [502], outputSizes := [16]\<rparr>)"
proof -
  have nil: "apply_bindings False [] demo_runner = (Inr (), demo_runner)"
    by simp
  note c = bind_contract [OF SimpleRunner_new_demo nil]
  show ?thesis
    using c [of 2 500 4] c [of 0 500 3] c [of 0 500 4] c [of 1 502 16] c [of 0 502 3] c [of 0 502 16]
    by (simp add: inputTensorLayouts_demo getHostSize_def demo_layout_A_def demo_layout_B_def
          demo_layout_C_def to_string_examples nullptr_def demo_runner_def)
qed

section \<open>Invoking with an input that was never bound\<close>






end
